theory Spec2Isabelle
  imports Complex_Main "HOL-Library.Product_Lexorder" "HOL-Library.Multiset" "HOL-Library.Log_Nat"
begin

section \<open>Python values and dictionaries\<close>

text \<open>
  The exceptions the modelled code can raise. \<open>Raised\<close> carries the message of an
  exception thrown by an external call.
\<close>

datatype error = KeyError | TypeError | ValueError | IndexError | AttributeError | Raised string

text \<open>
  One key of a Python dict: the key is absent, it is present with the value \<open>None\<close>,
  or it is present with a proper value.
\<close>

datatype 'a field = Absent | Null | Val 'a

text \<open>\<open>d.get(k)\<close>: \<open>None\<close> (here the option \<open>None\<close>) for an absent key and for a stored \<open>None\<close>.\<close>

definition get :: "'a field \<Rightarrow> 'a option" where
  "get f = (case f of Absent \<Rightarrow> None | Null \<Rightarrow> None | Val v \<Rightarrow> Some v)"

text \<open>\<open>d.get(k, default)\<close>: the default replaces an absent key only, not a stored \<open>None\<close>.\<close>

definition get_or :: "'a field \<Rightarrow> 'a \<Rightarrow> 'a option" where
  "get_or f d = (case f of Absent \<Rightarrow> Some d | Null \<Rightarrow> None | Val v \<Rightarrow> Some v)"

text \<open>The entry \<open>k: v\<close> of a dict literal, where \<open>v\<close> is a Python value that may be \<open>None\<close>.\<close>

definition stored :: "'a option \<Rightarrow> 'a field" where
  "stored v = (case v of None \<Rightarrow> Null | Some x \<Rightarrow> Val x)"

text \<open>\<open>x or 0\<close> on a number or \<open>None\<close>.\<close>

definition or_zero :: "'a::zero option \<Rightarrow> 'a" where
  "or_zero v = (case v of None \<Rightarrow> 0 | Some x \<Rightarrow> x)"

section \<open>Candidates and shortlist entries\<close>

text \<open>
  A string is a sequence of code points below 256 (the Latin-1 range), one \<open>char\<close>
  each. A price is a free-form string or a number. A number that arrives in a record
  (a Python int or a finite float) is modelled by its exact rational value.
\<close>

datatype price_value = PriceStr string | PriceNum rat

record product =
  asin :: "string field"
  title :: "string field"
  link :: "string field"
  link_clean :: "string field"
  thumbnail :: "string field"
  rating :: "rat field"
  reviews :: "int field"
  price :: "price_value field"

section \<open>Filtering (the loop of \<open>ProductAnalysisPipeline.run\<close>)\<close>

text \<open>
  \<open>passes_rating = min_rating is None or (rating and rating >= min_rating)\<close>, read as a
  truth value: a rating that is \<open>None\<close> or zero is falsy.
\<close>

definition passes_rating :: "rat option \<Rightarrow> rat option \<Rightarrow> bool" where
  "passes_rating min_rating r =
     (case min_rating of None \<Rightarrow> True
      | Some m \<Rightarrow> (case r of None \<Rightarrow> False | Some x \<Rightarrow> x \<noteq> 0 \<and> x \<ge> m))"

definition passes_reviews :: "int option \<Rightarrow> int option \<Rightarrow> bool" where
  "passes_reviews min_reviews r =
     (case min_reviews of None \<Rightarrow> True
      | Some m \<Rightarrow> (case r of None \<Rightarrow> False | Some x \<Rightarrow> x \<noteq> 0 \<and> x \<ge> m))"

text \<open>
  The test \<open>passes_rating and passes_reviews\<close> of one candidate, with
  \<open>rating = product.get("rating")\<close> and \<open>reviews = product.get("reviews", 0)\<close>.
\<close>

definition passes_filters :: "rat option \<Rightarrow> int option \<Rightarrow> product \<Rightarrow> bool" where
  "passes_filters min_rating min_reviews p =
     (passes_rating min_rating (get (rating p)) \<and>
      passes_reviews min_reviews (get_or (reviews p) 0))"

text \<open>The dict literal \<open>filtered_product\<close>: every key is present, read with \<open>product.get\<close>.\<close>

definition filtered_product :: "product \<Rightarrow> product" where
  "filtered_product p =
     \<lparr> asin = stored (get (asin p)),
       title = stored (get (title p)),
       link = stored (get (link p)),
       link_clean = stored (get (link_clean p)),
       thumbnail = stored (get (thumbnail p)),
       rating = stored (get (rating p)),
       reviews = stored (get (reviews p)),
       price = stored (get (price p)) \<rparr>"

text \<open>
  One iteration of \<open>for product in raw_results\<close> on the state
  \<open>(filtered_products, seen_asins)\<close>.
\<close>

definition filter_step ::
  "rat option \<Rightarrow> int option \<Rightarrow> product \<Rightarrow> product list \<times> string option set
     \<Rightarrow> product list \<times> string option set" where
  "filter_step min_rating min_reviews p st =
     (let a = get (asin p) in
      if a \<in> snd st then st
      else if passes_filters min_rating min_reviews p
           then (fst st @ [filtered_product p], insert a (snd st))
           else st)"

fun filter_loop ::
  "rat option \<Rightarrow> int option \<Rightarrow> product list \<Rightarrow> product list \<times> string option set
     \<Rightarrow> product list \<times> string option set" where
  "filter_loop min_rating min_reviews [] st = st"
| "filter_loop min_rating min_reviews (p # ps) st =
     filter_loop min_rating min_reviews ps (filter_step min_rating min_reviews p st)"

definition filter_products :: "rat option \<Rightarrow> int option \<Rightarrow> product list \<Rightarrow> product list" where
  "filter_products min_rating min_reviews raw_results =
     fst (filter_loop min_rating min_reviews raw_results ([], {}))"

section \<open>Ranking and truncation (\<open>select_top_products\<close>)\<close>

text \<open>
  The ASCII digits, and \<open>str.isdigit\<close>, which in the Latin-1 range also holds of the
  superscript digits (code points B2, B3 and B9).
\<close>

definition is_decimal :: "char \<Rightarrow> bool" where
  "is_decimal c = (c \<in> set ''0123456789'')"

definition is_digit :: "char \<Rightarrow> bool" where
  "is_digit c = (is_decimal c \<or> c \<in> set [CHR 0xB2, CHR 0xB3, CHR 0xB9])"

definition digit_value :: "char \<Rightarrow> int" where
  "digit_value c = of_char c - 48"

definition decimal_value :: "string \<Rightarrow> int" where
  "decimal_value ds = foldl (\<lambda>n c. 10 * n + digit_value c) 0 ds"

text \<open>\<open>''.join(c for c in price if c.isdigit() or c == '.')\<close>.\<close>

definition price_clean :: "string \<Rightarrow> string" where
  "price_clean s = filter (\<lambda>c. is_digit c \<or> c = CHR ''.'') s"

text \<open>
  The third component of the sort key is an int, a float read from the record, or the
  result of \<open>float\<close>, which is a double and may be infinite. Python compares ints and
  floats by their exact values, and the infinite float is above every number.
\<close>

datatype number = Num rat | PosInf

instantiation number :: linorder
begin

definition less_eq_number :: "number \<Rightarrow> number \<Rightarrow> bool" where
  "less_eq_number x y =
     (case y of PosInf \<Rightarrow> True | Num b \<Rightarrow> (case x of PosInf \<Rightarrow> False | Num a \<Rightarrow> a \<le> b))"

definition less_number :: "number \<Rightarrow> number \<Rightarrow> bool" where
  "less_number x y =
     (case x of PosInf \<Rightarrow> False | Num a \<Rightarrow> (case y of PosInf \<Rightarrow> True | Num b \<Rightarrow> a < b))"

instance
  by standard (auto simp: less_eq_number_def less_number_def split: number.splits)

end

text \<open>
  Rounding a non-negative rational to the nearest double, ties to the even significand:
  the spacing of the doubles around \<open>x\<close> is \<open>2\<^sup>p\<close>, where \<open>p\<close> is 52 below the binary
  exponent of \<open>x\<close> and at least \<open>-1074\<close> (the subnormal range); a result whose binary
  exponent is 1024 or more is the infinite float.
\<close>

definition two_pow :: "int \<Rightarrow> rat" where
  "two_pow p = (if 0 \<le> p then of_int (2 ^ nat p) else 1 / of_int (2 ^ nat (- p)))"

definition round_half_even :: "rat \<Rightarrow> int" where
  "round_half_even x =
     (let f = \<lfloor>x\<rfloor>; r = x - of_int f
      in if r < 1 / 2 then f else if 1 / 2 < r then f + 1 else if even f then f else f + 1)"

definition floor_log2 :: "rat \<Rightarrow> int" where
  "floor_log2 x =
     (let (n, d) = quotient_of x; e = bitlen n - bitlen d
      in if two_pow e \<le> x then e else e - 1)"

definition round_to_double :: "rat \<Rightarrow> number" where
  "round_to_double x =
     (if x = 0 then Num 0
      else
        (let p = max (floor_log2 x - 52) (- 1074);
             y = of_int (round_half_even (x / two_pow p)) * two_pow p
         in if 1024 \<le> floor_log2 y then PosInf else Num y))"

text \<open>
  A decimal numeral: ASCII digits with at most one dot and at least one digit. Of the
  strings \<open>price_clean\<close> produces, these are the ones \<open>float\<close> accepts.
\<close>

definition decimal_numeral :: "string \<Rightarrow> bool" where
  "decimal_numeral s =
     (list_all (\<lambda>c. is_decimal c \<or> c = CHR ''.'') s \<and>
      length (filter (\<lambda>c. c = CHR ''.'') s) \<le> 1 \<and>
      list_ex is_decimal s)"

text \<open>
  \<open>float(s)\<close> on a string of digits (in the sense of \<open>isdigit\<close>) and dots, the only
  strings \<open>price_clean\<close> produces: the double nearest to the value of a decimal
  numeral, and \<open>ValueError\<close> on any other such string. Signs, exponents, underscores,
  surrounding white space and the words \<open>inf\<close> and \<open>nan\<close>, which \<open>float\<close> also reads,
  contain a character that \<open>price_clean\<close> removes.
\<close>

definition py_float :: "string \<Rightarrow> error + number" where
  "py_float s =
     (if decimal_numeral s
      then Inr (round_to_double
                  (of_int (decimal_value (filter is_decimal s)) /
                   10 ^ length (tl (dropWhile (\<lambda>c. c \<noteq> CHR ''.'') s))))
      else Inl ValueError)"

text \<open>The inner function \<open>sort_key\<close>, returning \<open>(-rating, -reviews, price)\<close>.\<close>

definition sort_key_py :: "product \<Rightarrow> error + (rat \<times> int \<times> number)" where
  "sort_key_py p =
     (let r = or_zero (get_or (rating p) 0);
          n = or_zero (get_or (reviews p) 0)
      in case get_or (price p) (PriceNum 0) of
           Some (PriceStr s) \<Rightarrow>
             (let pc = price_clean s in
              if pc = [] then Inr (- r, - n, Num 999999)
              else (case py_float pc of Inl e \<Rightarrow> Inl e | Inr v \<Rightarrow> Inr (- r, - n, v)))
         | None \<Rightarrow> Inr (- r, - n, Num 999999)
         | Some (PriceNum v) \<Rightarrow> Inr (- r, - n, Num v))"

text \<open>
  \<open>sorted(products, key=sort_key)\<close> first calls the key function on every element, in
  order; the first exception ends the call.
\<close>

fun keyed :: "product list \<Rightarrow> error + ((rat \<times> int \<times> number) \<times> product) list" where
  "keyed [] = Inr []"
| "keyed (p # ps) =
     (case sort_key_py p of
        Inl e \<Rightarrow> Inl e
      | Inr k \<Rightarrow> (case keyed ps of Inl e \<Rightarrow> Inl e | Inr ks \<Rightarrow> Inr ((k, p) # ks)))"

text \<open>The keyed elements are then sorted by key with a stable sort.\<close>

definition sorted_products :: "product list \<Rightarrow> error + product list" where
  "sorted_products products =
     (case keyed products of Inl e \<Rightarrow> Inl e | Inr ks \<Rightarrow> Inr (map snd (sort_key fst ks)))"

text \<open>The slice \<open>xs[:limit]\<close>; a negative limit counts from the end.\<close>

definition slice_to :: "'a list \<Rightarrow> int \<Rightarrow> 'a list" where
  "slice_to xs limit =
     (if 0 \<le> limit then take (nat limit) xs else take (length xs - nat (- limit)) xs)"

text \<open>
  The logging loop over the selected products evaluates \<open>product['title'][:50]\<close>:
  \<open>KeyError\<close> without the key, \<open>TypeError\<close> when the title is \<open>None\<close>.
\<close>

fun log_selected :: "product list \<Rightarrow> error + unit" where
  "log_selected [] = Inr ()"
| "log_selected (p # ps) =
     (case title p of Absent \<Rightarrow> Inl KeyError | Null \<Rightarrow> Inl TypeError | Val t \<Rightarrow> log_selected ps)"

definition select_top_products :: "product list \<Rightarrow> int \<Rightarrow> error + product list" where
  "select_top_products products limit =
     (case sorted_products products of
        Inl e \<Rightarrow> Inl e
      | Inr sp \<Rightarrow>
          (let top_products = slice_to sp limit in
           case log_selected top_products of Inl e \<Rightarrow> Inl e | Inr u \<Rightarrow> Inr top_products))"

section \<open>The ranking as the specification words it\<close>

text \<open>The rating and the review count with a missing value read as zero.\<close>

definition rating_or_zero :: "product \<Rightarrow> rat" where
  "rating_or_zero p = or_zero (get (rating p))"

definition reviews_or_zero :: "product \<Rightarrow> int" where
  "reviews_or_zero p = or_zero (get (reviews p))"

text \<open>
  The numeric price: a string is stripped of everything but digits and dots and then
  parsed; a missing or unparsable price is the sentinel.
\<close>

definition parsed_price :: "product \<Rightarrow> number" where
  "parsed_price p =
     (case get (price p) of
        None \<Rightarrow> Num 999999
      | Some (PriceNum v) \<Rightarrow> Num v
      | Some (PriceStr s) \<Rightarrow>
          (case py_float (price_clean s) of Inl e \<Rightarrow> Num 999999 | Inr v \<Rightarrow> v))"

text \<open>Descending rating, then descending review count, then ascending price.\<close>

definition ranked_before :: "product \<Rightarrow> product \<Rightarrow> bool" where
  "ranked_before p q =
     (rating_or_zero p > rating_or_zero q \<or>
      (rating_or_zero p = rating_or_zero q \<and>
        (reviews_or_zero p > reviews_or_zero q \<or>
         (reviews_or_zero p = reviews_or_zero q \<and> parsed_price p \<le> parsed_price q))))"

definition tied :: "product \<Rightarrow> product \<Rightarrow> bool" where
  "tied p q = (rating_or_zero p = rating_or_zero q \<and> reviews_or_zero p = reviews_or_zero q \<and>
                parsed_price p = parsed_price q)"

text \<open>
  ``Such items rank last'': an entry whose price is missing or unparsable is followed
  by no entry with the same rating and review count that has a numeric price.
\<close>

definition has_numeric_price :: "product \<Rightarrow> bool" where
  "has_numeric_price p =
     (case get (price p) of
        None \<Rightarrow> False
      | Some (PriceNum v) \<Rightarrow> True
      | Some (PriceStr s) \<Rightarrow> decimal_numeral (price_clean s))"

fun unpriced_last :: "product list \<Rightarrow> bool" where
  "unpriced_last [] = True"
| "unpriced_last (p # ps) =
     ((has_numeric_price p \<or>
       list_all (\<lambda>q. \<not> (has_numeric_price q \<and> rating_or_zero q = rating_or_zero p \<and>
                          reviews_or_zero q = reviews_or_zero p)) ps) \<and>
      unpriced_last ps)"

text \<open>
  The filter test in the specification's words: a threshold is unset, or the value is
  present and reaches it.
\<close>

definition spec_passes :: "rat option \<Rightarrow> int option \<Rightarrow> product \<Rightarrow> bool" where
  "spec_passes min_rating min_reviews p =
     ((case min_rating of None \<Rightarrow> True
       | Some m \<Rightarrow> (case get (rating p) of None \<Rightarrow> False | Some r \<Rightarrow> r \<ge> m)) \<and>
      (case min_reviews of None \<Rightarrow> True
       | Some m \<Rightarrow> (case get (reviews p) of None \<Rightarrow> False | Some n \<Rightarrow> n \<ge> m)))"

text \<open>
  Deduplication in the specification's words: the first occurrence of every identifier
  is kept, before any filtering.
\<close>

fun dedup_first :: "product list \<Rightarrow> string option set \<Rightarrow> product list" where
  "dedup_first [] seen = []"
| "dedup_first (p # ps) seen =
     (if get (asin p) \<in> seen then dedup_first ps seen
      else p # dedup_first ps (insert (get (asin p)) seen))"

definition spec_filter_products :: "rat option \<Rightarrow> int option \<Rightarrow> product list \<Rightarrow> product list" where
  "spec_filter_products min_rating min_reviews raw_results =
     map filtered_product (filter (spec_passes min_rating min_reviews) (dedup_first raw_results {}))"

section \<open>Auxiliary notions for the proofs\<close>

text \<open>The key of a product whose key function returns.\<close>

definition key_of :: "product \<Rightarrow> rat \<times> int \<times> number" where
  "key_of p = (case sort_key_py p of Inl e \<Rightarrow> (0, 0, Num 0) | Inr k \<Rightarrow> k)"

text \<open>
  A price the key function can read: anything but a string whose digits and dots do
  not form a decimal numeral (a string without digits and dots is read as missing).
\<close>

definition price_parses :: "product \<Rightarrow> bool" where
  "price_parses p =
     (case get (price p) of
        Some (PriceStr s) \<Rightarrow> price_clean s = [] \<or> decimal_numeral (price_clean s)
      | _ \<Rightarrow> True)"

text \<open>The products the filter loop appends when it starts with the given \<open>seen_asins\<close>.\<close>

definition kept :: "rat option \<Rightarrow> int option \<Rightarrow> string option set \<Rightarrow> product list \<Rightarrow> product list" where
  "kept mr mv seen ps = fst (filter_loop mr mv ps ([], seen))"

text \<open>A search result with identifier, title, rating, review count and price string.\<close>

definition example_product :: "string \<Rightarrow> rat \<Rightarrow> int \<Rightarrow> string \<Rightarrow> product" where
  "example_product a r n pr =
     \<lparr> asin = Val a, title = Val ''Kettle'', link = Absent, link_clean = Absent,
       thumbnail = Absent, rating = Val r, reviews = Val n, price = Val (PriceStr pr) \<rparr>"

text \<open>The same search result without a title.\<close>

definition untitled_product :: "string \<Rightarrow> rat \<Rightarrow> int \<Rightarrow> string \<Rightarrow> product" where
  "untitled_product a r n pr = (example_product a r n pr) \<lparr> title := Absent \<rparr>"

text \<open>A search result that has an identifier and a title and nothing else.\<close>

definition bare_product :: "string \<Rightarrow> product" where
  "bare_product a =
     \<lparr> asin = Val a, title = Val ''Kettle'', link = Absent, link_clean = Absent,
       thumbnail = Absent, rating = Absent, reviews = Absent, price = Absent \<rparr>"

text \<open>A search result with a rating and a review count but no price.\<close>

definition unpriced_product :: "string \<Rightarrow> rat \<Rightarrow> int \<Rightarrow> product" where
  "unpriced_product a r n = (bare_product a) \<lparr> rating := Val r, reviews := Val n \<rparr>"

text \<open>
  Search results that differ in rating, in review count and in price, with two that tie
  on all three and two without a price.
\<close>

definition ranking_example :: "product list" where
  "ranking_example =
     [example_product ''A'' 4 500 ''$10.00'',
      example_product ''B'' (9 / 2) 100 ''$30.00'',
      example_product ''C'' (9 / 2) 200 ''AU$1,299.00'',
      example_product ''D'' (9 / 2) 200 ''$15.50'',
      bare_product ''E'',
      example_product ''F'' (9 / 2) 200 ''15.5'',
      unpriced_product ''G'' (9 / 2) 200]"

section \<open>Strings (the operations the analysis-text parser uses)\<close>

text \<open>
  On code points below 256, \<open>str.strip\<close> removes the ASCII white space, the
  separators 1C to 1F, the next-line control 85 and the no-break space A0, and
  \<open>str.lower\<close> maps the letters A to Z and the accented capitals C0 to DE (except the
  multiplication sign D7) to the code point 32 above.
\<close>

definition starts_with :: "string \<Rightarrow> string \<Rightarrow> bool" where
  "starts_with pre s = (take (length pre) s = pre)"

text \<open>
  \<open>s.split(sep)\<close> for the separator \<open>d # ds\<close>: the text is cut at the successive
  non-overlapping occurrences of the separator, from the left; \<open>cur\<close> collects the
  piece being read.
\<close>

fun split_from :: "char \<Rightarrow> string \<Rightarrow> string \<Rightarrow> string \<Rightarrow> string list" where
  "split_from d ds cur [] = [cur]"
| "split_from d ds cur (c # cs) =
     (if starts_with (d # ds) (c # cs)
      then cur # split_from d ds [] (drop (length ds) cs)
      else split_from d ds (cur @ [c]) cs)"

text \<open>\<open>str.split\<close> raises \<open>ValueError\<close> on an empty separator.\<close>

definition str_split :: "string \<Rightarrow> string \<Rightarrow> error + string list" where
  "str_split s sep = (case sep of [] \<Rightarrow> Inl ValueError | d # ds \<Rightarrow> Inr (split_from d ds [] s))"

text \<open>\<open>s.split('\n')\<close>.\<close>

definition lines_of :: "string \<Rightarrow> string list" where
  "lines_of s = split_from CHR ''\<newline>'' [] [] s"

text \<open>\<open>s.replace(old, '')\<close>: the pieces between the occurrences of \<open>old\<close>, joined.\<close>

definition remove_all :: "string \<Rightarrow> string \<Rightarrow> string" where
  "remove_all s old = (case old of [] \<Rightarrow> s | d # ds \<Rightarrow> concat (split_from d ds [] s))"

text \<open>The characters \<open>str.strip()\<close> removes.\<close>

definition is_space :: "char \<Rightarrow> bool" where
  "is_space c = (c \<in> set [CHR '' '', CHR 0x09, CHR ''\<newline>'', CHR 0x0B, CHR 0x0C, CHR 0x0D,
                             CHR 0x1C, CHR 0x1D, CHR 0x1E, CHR 0x1F, CHR 0x85, CHR 0xA0])"

definition strip :: "string \<Rightarrow> string" where
  "strip s = rev (dropWhile is_space (rev (dropWhile is_space s)))"

text \<open>\<open>s.lstrip(chars)\<close>.\<close>

definition lstrip_chars :: "string \<Rightarrow> string \<Rightarrow> string" where
  "lstrip_chars chars s = dropWhile (\<lambda>c. c \<in> set chars) s"

definition is_upper :: "char \<Rightarrow> bool" where
  "is_upper c =
     (let n = (of_char c :: nat)
      in (65 \<le> n \<and> n \<le> 90) \<or> (192 \<le> n \<and> n \<le> 222 \<and> n \<noteq> 215))"

definition lower_char :: "char \<Rightarrow> char" where
  "lower_char c = (if is_upper c then char_of (of_char c + (32::nat)) else c)"

definition lower :: "string \<Rightarrow> string" where
  "lower s = map lower_char s"

text \<open>\<open>pat in s\<close>.\<close>

fun contains :: "string \<Rightarrow> string \<Rightarrow> bool" where
  "contains pat [] = (pat = [])"
| "contains pat (c # cs) = (starts_with pat (c # cs) \<or> contains pat cs)"

text \<open>\<open>sep.join(xs)\<close>.\<close>

fun join :: "string \<Rightarrow> string list \<Rightarrow> string" where
  "join sep [] = []"
| "join sep [x] = x"
| "join sep (x # y # ys) = x @ sep @ join sep (y # ys)"

section \<open>The analysis-text parser (\<open>HTMLReportGenerator\<close>)\<close>

text \<open>
  \<open>_markdown_to_html\<close> is \<open>re.sub(r'\*\*(.*?)\*\*', r'<strong>\1</strong>', text)\<close>. On a
  text without a line break, which is all the parser passes to it, the non-greedy
  pattern pairs the successive occurrences of \<open>**\<close> from the left: with the text cut
  at these occurrences, every second piece is wrapped, and an unpaired last
  occurrence stays as it is.
\<close>

fun join_strong :: "string list \<Rightarrow> string" where
  "join_strong (a # b # c # rest) = a @ ''<strong>'' @ b @ ''</strong>'' @ join_strong (c # rest)"
| "join_strong [a, b] = a @ ''**'' @ b"
| "join_strong [a] = a"
| "join_strong [] = []"

definition markdown_to_html :: "string \<Rightarrow> string" where
  "markdown_to_html text = join_strong (split_from CHR ''*'' ''*'' [] text)"

definition placeholder_patterns :: "string list" where
  "placeholder_patterns =
     [''no common concerns identified'',
      ''no concerns identified'',
      ''no specific concerns'',
      ''no major concerns'',
      ''no common strengths identified'',
      ''no strengths identified'',
      ''no specific strengths'']"

text \<open>\<open>_is_placeholder_text\<close>: some pattern occurs in the lower-cased text.\<close>

definition is_placeholder_text :: "string \<Rightarrow> bool" where
  "is_placeholder_text text = list_ex (\<lambda>pattern. contains pattern (lower text)) placeholder_patterns"

text \<open>
  The body of the loop over the lines of one section, which is the same for strengths
  and concerns, on the state (list of accepted items, set of seen items).
\<close>

definition parse_line :: "string \<Rightarrow> string list \<times> string set \<Rightarrow> string list \<times> string set" where
  "parse_line raw_line st =
     (let line = strip raw_line in
      case line of
        [] \<Rightarrow> st
      | c # cs \<Rightarrow>
          if is_digit c \<or> starts_with ''-'' line then
            (let cleaned = strip (lstrip_chars ''0123456789.-) '' line) in
             if cleaned \<noteq> [] then
               (let html_text = markdown_to_html cleaned in
                if html_text \<notin> snd st \<and> \<not> is_placeholder_text html_text
                then (fst st @ [html_text], insert html_text (snd st))
                else st)
             else st)
          else st)"

fun parse_lines :: "string list \<Rightarrow> string list \<times> string set \<Rightarrow> string list \<times> string set" where
  "parse_lines [] st = st"
| "parse_lines (l # ls) st = parse_lines ls (parse_line l st)"

text \<open>\<open>_parse_analysis_text\<close>, returning \<open>(strengths, concerns)\<close>.\<close>

definition parse_analysis_text :: "string \<Rightarrow> string list \<times> string list" where
  "parse_analysis_text analysis_text =
     (if analysis_text = [] then ([], [])
      else
        (case split_from CHR ''*'' ''*Product Concerns:**'' [] analysis_text of
           s0 # s1 # rest \<Rightarrow>
             (let strengths_text = strip (remove_all s0 ''**Product Strengths:**'');
                  strengths = fst (parse_lines (lines_of strengths_text) ([], {}));
                  concerns_text = strip s1;
                  concerns = fst (parse_lines (lines_of concerns_text) ([], {}))
              in (strengths, concerns))
         | _ \<Rightarrow> ([], [])))"

section \<open>Example analysis responses\<close>

text \<open>
  Two responses with three numbered strengths and three numbered concerns. The third
  strength of the first is a number, that of the second begins with a number.
\<close>

definition example_analysis :: string where
  "example_analysis =
     ''**Product Strengths:**\<newline>1. Fast\<newline>2. **Quiet** motor\<newline>3. 10\<newline>\<newline>**Product Concerns:**\<newline>1. Heavy\<newline>2. Loud\<newline>3. Hot''"

definition warranty_analysis :: string where
  "warranty_analysis =
     ''**Product Strengths:**\<newline>1. Fast\<newline>2. **Quiet** motor\<newline>3. 5-year warranty\<newline>\<newline>**Product Concerns:**\<newline>1. Heavy\<newline>2. Loud\<newline>3. Hot''"

section \<open>Detail records and the detail provider (\<open>RainforestHandler\<close>)\<close>

text \<open>
  The value under \<open>feature_bullets\<close> is a list of strings or a single string. The
  \<open>product\<close> entry of a provider response carries the title and the feature bullets;
  \<open>pd_rest\<close> stands for the rest of the payload.
\<close>

datatype feature_value = BulletList "string list" | FeatureText string

record rf_product =
  rf_title :: "string field"
  feature_bullets :: "feature_value field"

record product_data =
  pd_product :: "rf_product field"
  pd_rest :: "string field"

text \<open>The empty dict \<open>{}\<close>.\<close>

definition empty_dict :: product_data where
  "empty_dict = \<lparr> pd_product = Absent, pd_rest = Absent \<rparr>"

definition empty_rf_product :: rf_product where
  "empty_rf_product = \<lparr> rf_title = Absent, feature_bullets = Absent \<rparr>"

text \<open>
  What \<open>requests.get\<close> does: it returns a response with a status code and a body that
  parses as JSON or not, or it raises.
\<close>

datatype 'a http_result = HttpResponse nat "'a option" | RequestFailed string

text \<open>
  \<open>get_product_data\<close>: a status other than 200, a body that does not parse and a
  raised exception are all logged and answered with \<open>{}\<close>; nothing is raised.
\<close>

definition get_product_data ::
  "(string option \<Rightarrow> product_data http_result) \<Rightarrow> string option \<Rightarrow> product_data" where
  "get_product_data requests_get a =
     (case requests_get a of
        HttpResponse status_code body \<Rightarrow>
          (if status_code \<noteq> 200 then empty_dict
           else (case body of None \<Rightarrow> empty_dict | Some data \<Rightarrow> data))
      | RequestFailed msg \<Rightarrow> empty_dict)"

text \<open>
  \<open>fetch_product_data_async\<close> runs the handler in an executor and returns its value.
  The outcome of a task is a value or a raised exception.
\<close>

definition fetch_product_data_async ::
  "(string option \<Rightarrow> product_data http_result) \<Rightarrow> string option \<Rightarrow> error + product_data" where
  "fetch_product_data_async requests_get a = Inr (get_product_data requests_get a)"

section \<open>The stage orchestrator (\<open>collect_product_data\<close>, \<open>analyze_all_products\<close>)\<close>

text \<open>
  \<open>asyncio.gather(*tasks, return_exceptions=True)\<close>: task \<open>i\<close> finishes at
  \<open>finish_time i\<close>; the outcomes arrive in the order of completion and are put back
  in the order of the tasks. An exception is an outcome like any other.
\<close>

definition gather :: "(nat \<Rightarrow> nat) \<Rightarrow> 'a list \<Rightarrow> 'a list" where
  "gather finish_time results =
     map snd (sort_key fst (map (\<lambda>i. (i, results ! i)) (sort_key finish_time [0..<length results])))"

text \<open>The loop creating the tasks reads \<open>product['asin']\<close> of every product.\<close>

fun asins_of :: "product list \<Rightarrow> error + string option list" where
  "asins_of [] = Inr []"
| "asins_of (p # ps) =
     (case asin p of
        Absent \<Rightarrow> Inl KeyError
      | f \<Rightarrow> (case asins_of ps of Inl e \<Rightarrow> Inl e | Inr as \<Rightarrow> Inr (get f # as)))"

text \<open>The loop \<open>Check for errors\<close>: the first outcome that is an exception is raised.\<close>

fun check_results :: "(error + 'a) list \<Rightarrow> error + 'a list" where
  "check_results [] = Inr []"
| "check_results (r # rs) =
     (case r of
        Inl e \<Rightarrow> Inl e
      | Inr v \<Rightarrow> (case check_results rs of Inl e \<Rightarrow> Inl e | Inr vs \<Rightarrow> Inr (v # vs)))"

text \<open>The sequential loop over the review provider; an exception ends it.\<close>

fun fetch_reviews_loop ::
  "(string option \<Rightarrow> error + 'r list) \<Rightarrow> string option list \<Rightarrow> 'r list list \<Rightarrow> error + 'r list list" where
  "fetch_reviews_loop fetch_reviews [] review_results = Inr review_results"
| "fetch_reviews_loop fetch_reviews (a # as) review_results =
     (case fetch_reviews a of
        Inl e \<Rightarrow> Inl e
      | Inr rs \<Rightarrow> fetch_reviews_loop fetch_reviews as (review_results @ [rs]))"

definition collect_product_data ::
  "(string option \<Rightarrow> error + product_data) \<Rightarrow> (string option \<Rightarrow> error + 'r list) \<Rightarrow> (nat \<Rightarrow> nat)
     \<Rightarrow> product list \<Rightarrow> error + product_data list \<times> 'r list list" where
  "collect_product_data fetch_product_data fetch_reviews finish_time products =
     (case asins_of products of
        Inl e \<Rightarrow> Inl e
      | Inr asins \<Rightarrow>
          (let product_data_results = gather finish_time (map fetch_product_data asins) in
           case check_results product_data_results of
             Inl e \<Rightarrow> Inl e
           | Inr product_data_list \<Rightarrow>
               (case fetch_reviews_loop fetch_reviews asins [] of
                  Inl e \<Rightarrow> Inl e
                | Inr review_results \<Rightarrow> Inr (product_data_list, review_results))))"

text \<open>The arguments of one call of the analysis provider.\<close>

record 'r analysis_request =
  req_title :: "string option"
  req_description :: string
  req_reviews :: "'r list"

text \<open>\<open>title = rf_product.get('title', product.get('title', 'Unknown Product'))\<close>.\<close>

definition request_title :: "rf_product \<Rightarrow> product \<Rightarrow> string option" where
  "request_title rf product =
     (case rf_title rf of
        Absent \<Rightarrow> get_or (title product) ''Unknown Product''
      | Null \<Rightarrow> None
      | Val t \<Rightarrow> Some t)"

text \<open>\<open>f"- {bullet}"\<close>.\<close>

definition bullet_line :: "string \<Rightarrow> string" where
  "bullet_line bullet = ''- '' @ bullet"

text \<open>
  The description, from \<open>feature_bullets = rf_product.get('feature_bullets', [])\<close>: a
  list is joined, anything else is its text, or the placeholder when it is falsy.
\<close>

definition request_description :: "rf_product \<Rightarrow> string" where
  "request_description rf =
     (case get_or (feature_bullets rf) (BulletList []) of
        Some (BulletList bs) \<Rightarrow> join ''\<newline>'' (map bullet_line bs)
      | Some (FeatureText s) \<Rightarrow> (if s \<noteq> [] then s else ''No description available'')
      | None \<Rightarrow> ''No description available'')"

text \<open>
  One iteration of the loop creating the analysis tasks. \<open>product_data_list[i]\<close> and
  \<open>reviews_list[i]\<close> raise \<open>IndexError\<close> out of range, and \<open>.get\<close> on a \<open>product\<close> entry
  that is \<open>None\<close> raises \<open>AttributeError\<close>.
\<close>

definition analysis_request ::
  "nat \<Rightarrow> product \<Rightarrow> product_data list \<Rightarrow> 'r list list \<Rightarrow> error + 'r analysis_request" where
  "analysis_request i product product_data_list reviews_list =
     (if length product_data_list \<le> i then Inl IndexError
      else
        (case get_or (pd_product (product_data_list ! i)) empty_rf_product of
           None \<Rightarrow> Inl AttributeError
         | Some rf \<Rightarrow>
             (if length reviews_list \<le> i then Inl IndexError
              else Inr \<lparr> req_title = request_title rf product,
                         req_description = request_description rf,
                         req_reviews = reviews_list ! i \<rparr>)))"

fun analysis_requests ::
  "nat \<Rightarrow> product list \<Rightarrow> product_data list \<Rightarrow> 'r list list \<Rightarrow> error + 'r analysis_request list" where
  "analysis_requests i [] product_data_list reviews_list = Inr []"
| "analysis_requests i (p # ps) product_data_list reviews_list =
     (case analysis_request i p product_data_list reviews_list of
        Inl e \<Rightarrow> Inl e
      | Inr req \<Rightarrow>
          (case analysis_requests (Suc i) ps product_data_list reviews_list of
             Inl e \<Rightarrow> Inl e
           | Inr reqs \<Rightarrow> Inr (req # reqs)))"

definition analyze_all_products ::
  "('r analysis_request \<Rightarrow> error + 'a) \<Rightarrow> (nat \<Rightarrow> nat) \<Rightarrow> product list \<Rightarrow> product_data list
     \<Rightarrow> 'r list list \<Rightarrow> error + 'a list" where
  "analyze_all_products analyze finish_time products product_data_list reviews_list =
     (case analysis_requests 0 products product_data_list reviews_list of
        Inl e \<Rightarrow> Inl e
      | Inr requests \<Rightarrow> check_results (gather finish_time (map analyze requests)))"

section \<open>The analysis request as the specification words it\<close>

text \<open>The entry's title, falling back to the detail-stage title.\<close>

definition spec_request_title :: "rf_product \<Rightarrow> product \<Rightarrow> string option" where
  "spec_request_title rf product =
     (case get (title product) of Some t \<Rightarrow> Some t | None \<Rightarrow> get (rf_title rf))"

text \<open>The bullets joined one per line, or the placeholder when there is no such text.\<close>

definition spec_request_description :: "rf_product \<Rightarrow> string" where
  "spec_request_description rf =
     (case get (feature_bullets rf) of
        Some (BulletList (b # bs)) \<Rightarrow> join ''\<newline>'' (map bullet_line (b # bs))
      | _ \<Rightarrow> ''No description available'')"

section \<open>Review records on the heap (the tagging loop of \<open>run\<close>)\<close>

text \<open>
  A review is a dict object. The lists of reviews hold references to these objects, so
  the objects live in a heap indexed by reference, and an assignment
  \<open>review[k] = v\<close> updates the heap.
\<close>

datatype pyval = PyNone | PyStr string | PyNum rat

type_synonym review = "string \<Rightarrow> pyval option"

type_synonym heap = "nat \<Rightarrow> review"

text \<open>\<open>d[k]\<close> on a product: \<open>KeyError\<close> when the key is absent.\<close>

definition subscript :: "string field \<Rightarrow> error + pyval" where
  "subscript f = (case f of Absent \<Rightarrow> Inl KeyError | Null \<Rightarrow> Inr PyNone | Val s \<Rightarrow> Inr (PyStr s))"

text \<open>
  \<open>review['asin'] = top_products[i]['asin']\<close> and
  \<open>review['product_title'] = top_products[i]['title']\<close>.
\<close>

definition tag_review :: "product list \<Rightarrow> nat \<Rightarrow> nat \<Rightarrow> heap \<Rightarrow> error + heap" where
  "tag_review top_products i review h =
     (if length top_products \<le> i then Inl IndexError
      else
        (case subscript (asin (top_products ! i)) of
           Inl e \<Rightarrow> Inl e
         | Inr a \<Rightarrow>
             (let h1 = h(review := (h review)(''asin'' \<mapsto> a)) in
              case subscript (title (top_products ! i)) of
                Inl e \<Rightarrow> Inl e
              | Inr t \<Rightarrow> Inr (h1(review := (h1 review)(''product_title'' \<mapsto> t))))))"

text \<open>The inner loop over one review list, on the state \<open>(heap, all_reviews)\<close>.\<close>

fun tag_review_list ::
  "product list \<Rightarrow> nat \<Rightarrow> nat list \<Rightarrow> heap \<times> nat list \<Rightarrow> error + heap \<times> nat list" where
  "tag_review_list top_products i [] st = Inr st"
| "tag_review_list top_products i (review # rest) st =
     (case tag_review top_products i review (fst st) of
        Inl e \<Rightarrow> Inl e
      | Inr h' \<Rightarrow> tag_review_list top_products i rest (h', snd st @ [review]))"

text \<open>The outer loop \<open>for i, review_list in enumerate(reviews_list)\<close>.\<close>

fun tag_reviews_from ::
  "product list \<Rightarrow> nat \<Rightarrow> nat list list \<Rightarrow> heap \<times> nat list \<Rightarrow> error + heap \<times> nat list" where
  "tag_reviews_from top_products i [] st = Inr st"
| "tag_reviews_from top_products i (review_list # rest) st =
     (case tag_review_list top_products i review_list st of
        Inl e \<Rightarrow> Inl e
      | Inr st' \<Rightarrow> tag_reviews_from top_products (Suc i) rest st')"

definition tag_reviews :: "product list \<Rightarrow> nat list list \<Rightarrow> heap \<Rightarrow> error + heap \<times> nat list" where
  "tag_reviews top_products reviews_list h = tag_reviews_from top_products 0 reviews_list (h, [])"

text \<open>
  The steps of \<open>run\<close> from saving the reviews to the analysis stage: the analysis
  provider is called with \<open>reviews_list\<close> itself, and reads the reviews in the heap
  the tagging loop left.
\<close>

definition save_reviews_then_analyze ::
  "(heap \<Rightarrow> nat analysis_request \<Rightarrow> error + 'a) \<Rightarrow> (nat \<Rightarrow> nat) \<Rightarrow> product list
     \<Rightarrow> product_data list \<Rightarrow> nat list list \<Rightarrow> heap \<Rightarrow> error + heap \<times> nat list \<times> 'a list" where
  "save_reviews_then_analyze analyze finish_time top_products product_data_list reviews_list h =
     (case tag_reviews top_products reviews_list h of
        Inl e \<Rightarrow> Inl e
      | Inr (h', all_reviews) \<Rightarrow>
          (case analyze_all_products (analyze h') finish_time top_products product_data_list reviews_list of
             Inl e \<Rightarrow> Inl e
           | Inr analyses \<Rightarrow> Inr (h', all_reviews, analyses)))"

section \<open>Further auxiliary notions and example inputs\<close>

text \<open>The Python value of a field that is present.\<close>

definition py_value :: "string field \<Rightarrow> pyval" where
  "py_value f = (case f of Val s \<Rightarrow> PyStr s | _ \<Rightarrow> PyNone)"

text \<open>A review with the two keys set from a shortlist entry.\<close>

definition tagged :: "product \<Rightarrow> review \<Rightarrow> review" where
  "tagged p r = r(''asin'' \<mapsto> py_value (asin p), ''product_title'' \<mapsto> py_value (title p))"

text \<open>
  A detail record with a title and no feature bullets, one with bullets only, and one
  with both.
\<close>

definition example_detail :: "string \<Rightarrow> product_data" where
  "example_detail t =
     \<lparr> pd_product = Val \<lparr> rf_title = Val t, feature_bullets = Absent \<rparr>, pd_rest = Val ''request_info'' \<rparr>"

definition bulleted_detail :: "string list \<Rightarrow> product_data" where
  "bulleted_detail bs =
     \<lparr> pd_product = Val \<lparr> rf_title = Absent, feature_bullets = Val (BulletList bs) \<rparr>,
       pd_rest = Val ''request_info'' \<rparr>"

definition titled_detail :: "string \<Rightarrow> string list \<Rightarrow> product_data" where
  "titled_detail t bs =
     \<lparr> pd_product = Val \<lparr> rf_title = Val t, feature_bullets = Val (BulletList bs) \<rparr>,
       pd_rest = Val ''request_info'' \<rparr>"

text \<open>A network on which the request for \<open>B02\<close> fails in transport.\<close>

definition failing_second :: "string option \<Rightarrow> product_data http_result" where
  "failing_second a =
     (if a = Some ''B02'' then RequestFailed ''connection reset''
      else HttpResponse 200 (Some (example_detail ''Kettle'')))"

text \<open>A network on which the request for \<open>B02\<close> is answered with status 503.\<close>

definition rejecting_second :: "string option \<Rightarrow> product_data http_result" where
  "rejecting_second a =
     (if a = Some ''B02'' then HttpResponse 503 None
      else HttpResponse 200 (Some (example_detail ''Kettle'')))"

text \<open>
  A network that answers every request with a record of its own, a review provider
  that returns two reviews of its own for every identifier, and an analysis provider
  that answers with the title and the description it was given and the number of
  reviews.
\<close>

definition catalogue :: "string option \<Rightarrow> product_data http_result" where
  "catalogue a =
     (case a of
        None \<Rightarrow> HttpResponse 404 None
      | Some s \<Rightarrow> HttpResponse 200 (Some (titled_detail (''Kettle '' @ s) [''Model '' @ s])))"

definition reviews_by_asin :: "string option \<Rightarrow> error + string list" where
  "reviews_by_asin a = (case a of None \<Rightarrow> Inr [] | Some s \<Rightarrow> Inr [s @ ''-r1'', s @ ''-r2''])"

definition three_entries :: "product list" where
  "three_entries =
     [example_product ''B01'' (9 / 2) 200 ''$20.00'', example_product ''B02'' 4 150 ''$25.00'',
      example_product ''B03'' 4 100 ''$30.00'']"

definition summarize :: "string analysis_request \<Rightarrow> error + string option \<times> string \<times> nat" where
  "summarize req = Inr (req_title req, req_description req, length (req_reviews req))"

text \<open>A review provider returning one review, and tasks finishing last first.\<close>

definition one_review :: "string option \<Rightarrow> error + nat list" where
  "one_review a = Inr [0]"

definition last_first :: "nat \<Rightarrow> nat" where
  "last_first i = 3 - i"


section \<open>Properties of the dictionary operations\<close>

lemma get_stored [simp]: "get (stored v) = v"
  by (cases v) (simp_all add: get_def stored_def)

lemma stored_not_Absent [simp]: "stored v \<noteq> Absent"
  by (cases v) (simp_all add: stored_def)

lemma asin_filtered_product [simp]: "get (asin (filtered_product p)) = get (asin p)"
  by (simp add: filtered_product_def)

section \<open>Properties of the filter loop\<close>

lemma filter_loop_acc:
  "filter_loop mr mv ps (acc, seen) =
     (acc @ fst (filter_loop mr mv ps ([], seen)), snd (filter_loop mr mv ps ([], seen)))"
proof (induction ps arbitrary: acc seen)
  case Nil
  then show ?case by simp
next
  case (Cons p ps)
  show ?case
    using Cons.IH [of "acc @ [filtered_product p]" "insert (get (asin p)) seen"]
      Cons.IH [of "[filtered_product p]" "insert (get (asin p)) seen"]
      Cons.IH [of acc seen]
    by (simp add: filter_step_def Let_def)
qed

lemma kept_Nil [simp]: "kept mr mv seen [] = []"
  by (simp add: kept_def)

lemma kept_Cons:
  "kept mr mv seen (p # ps) =
     (if get (asin p) \<notin> seen \<and> passes_filters mr mv p
      then filtered_product p # kept mr mv (insert (get (asin p)) seen) ps
      else kept mr mv seen ps)"
  using filter_loop_acc [of mr mv ps "[filtered_product p]" "insert (get (asin p)) seen"]
  by (simp add: kept_def filter_step_def Let_def)

lemma filter_products_kept: "filter_products mr mv raw = kept mr mv {} raw"
  by (simp add: filter_products_def kept_def)

lemma kept_asins_unseen:
  "q \<in> set (kept mr mv seen ps) \<Longrightarrow> get (asin q) \<notin> seen"
  by (induction ps arbitrary: seen) (auto simp: kept_Cons split: if_splits)

lemma kept_distinct: "distinct (map (\<lambda>q. get (asin q)) (kept mr mv seen ps))"
  by (induction ps arbitrary: seen) (auto simp: kept_Cons dest: kept_asins_unseen)

lemma kept_keys_present:
  "q \<in> set (kept mr mv seen ps) \<Longrightarrow> price q \<noteq> Absent \<and> title q \<noteq> Absent"
  by (induction ps arbitrary: seen) (auto simp: kept_Cons filtered_product_def split: if_splits)

text \<open>
  Every appended entry is the projection of a candidate that passes the test, whose
  identifier was not seen, and before which no candidate with that identifier passed.
\<close>

lemma kept_origin:
  "q \<in> set (kept mr mv seen ps) \<Longrightarrow>
     \<exists>i<length ps. q = filtered_product (ps ! i) \<and> passes_filters mr mv (ps ! i) \<and>
        get (asin (ps ! i)) \<notin> seen \<and>
        (\<forall>j<i. get (asin (ps ! j)) = get (asin (ps ! i)) \<longrightarrow> \<not> passes_filters mr mv (ps ! j))"
proof (induction ps arbitrary: seen)
  case Nil
  then show ?case by simp
next
  case (Cons p ps)
  show ?case
  proof (cases "get (asin p) \<notin> seen \<and> passes_filters mr mv p")
    case True
    show ?thesis
    proof (cases "q = filtered_product p")
      case True
      with \<open>get (asin p) \<notin> seen \<and> passes_filters mr mv p\<close> show ?thesis
        by (intro exI [of _ 0]) simp
    next
      case False
      with True Cons.prems have "q \<in> set (kept mr mv (insert (get (asin p)) seen) ps)"
        by (simp add: kept_Cons)
      from Cons.IH [OF this] obtain i where i: "i < length ps" "q = filtered_product (ps ! i)"
        "passes_filters mr mv (ps ! i)" "get (asin (ps ! i)) \<notin> insert (get (asin p)) seen"
        "\<forall>j<i. get (asin (ps ! j)) = get (asin (ps ! i)) \<longrightarrow> \<not> passes_filters mr mv (ps ! j)"
        by blast
      have "\<forall>j<Suc i. get (asin ((p # ps) ! j)) = get (asin ((p # ps) ! Suc i))
              \<longrightarrow> \<not> passes_filters mr mv ((p # ps) ! j)"
        using i(4,5) by (auto simp: less_Suc_eq_0_disj)
      with i(1-4) show ?thesis
        by (intro exI [of _ "Suc i"]) simp
    qed
  next
    case False
    with Cons.prems have "q \<in> set (kept mr mv seen ps)"
      by (simp add: kept_Cons)
    from Cons.IH [OF this] obtain i where i: "i < length ps" "q = filtered_product (ps ! i)"
      "passes_filters mr mv (ps ! i)" "get (asin (ps ! i)) \<notin> seen"
      "\<forall>j<i. get (asin (ps ! j)) = get (asin (ps ! i)) \<longrightarrow> \<not> passes_filters mr mv (ps ! j)"
      by blast
    have "\<forall>j<Suc i. get (asin ((p # ps) ! j)) = get (asin ((p # ps) ! Suc i))
            \<longrightarrow> \<not> passes_filters mr mv ((p # ps) ! j)"
      using i(4,5) False by (auto simp: less_Suc_eq_0_disj)
    with i(1-4) show ?thesis
      by (intro exI [of _ "Suc i"]) simp
  qed
qed

section \<open>Properties of the ranking\<close>

lemma keyed_Inr:
  "keyed ps = Inr ks \<Longrightarrow>
     ks = map (\<lambda>p. (key_of p, p)) ps \<and> (\<forall>p\<in>set ps. sort_key_py p = Inr (key_of p))"
  by (induction ps arbitrary: ks) (auto simp: key_of_def split: sum.splits)

lemma keyed_all_Inr:
  "\<forall>p\<in>set ps. \<exists>k. sort_key_py p = Inr k \<Longrightarrow> keyed ps = Inr (map (\<lambda>p. (key_of p, p)) ps)"
  by (induction ps) (auto simp: key_of_def split: sum.splits)

lemma insort_key_decorated:
  "insort_key fst (k x, x) (map (\<lambda>p. (k p, p)) xs) = map (\<lambda>p. (k p, p)) (insort_key k x xs)"
  by (induction xs) simp_all

lemma sort_key_decorated:
  "sort_key fst (map (\<lambda>p. (k p, p)) xs) = map (\<lambda>p. (k p, p)) (sort_key k xs)"
  by (induction xs) (simp_all add: insort_key_decorated)

lemma sorted_products_Inr:
  "sorted_products ps = Inr ys \<Longrightarrow>
     ys = sort_key key_of ps \<and> (\<forall>p\<in>set ps. sort_key_py p = Inr (key_of p))"
  by (auto simp: sorted_products_def sort_key_decorated comp_def split: sum.splits dest!: keyed_Inr)

lemma sorted_products_all_Inr:
  "\<forall>p\<in>set ps. \<exists>k. sort_key_py p = Inr k \<Longrightarrow> sorted_products ps = Inr (sort_key key_of ps)"
  by (simp add: sorted_products_def keyed_all_Inr sort_key_decorated comp_def)

lemma log_selected_Inr:
  "log_selected ps = Inr u \<longleftrightarrow> (\<forall>p\<in>set ps. \<exists>t. title p = Val t)"
  by (induction ps) (auto split: field.splits)

lemma slice_to_nonneg: "0 \<le> limit \<Longrightarrow> slice_to xs limit = take (nat limit) xs"
  by (simp add: slice_to_def)

lemma select_top_products_Inr:
  assumes "select_top_products ps limit = Inr out"
  shows "out = slice_to (sort_key key_of ps) limit"
    and "\<forall>p\<in>set ps. sort_key_py p = Inr (key_of p)"
    and "\<forall>p\<in>set out. \<exists>t. title p = Val t"
  using assms
  by (auto simp: select_top_products_def Let_def log_selected_Inr split: sum.splits
      dest!: sorted_products_Inr)

lemma py_float_Nil [simp]: "py_float [] = Inl ValueError"
  by (simp add: py_float_def decimal_numeral_def)

lemma sort_key_py_parses:
  assumes "price_parses p"
  shows "\<exists>k. sort_key_py p = Inr k"
  using assms
  by (cases "price p")
     (auto simp: sort_key_py_def price_parses_def py_float_def get_def get_or_def Let_def
        split: price_value.splits)

text \<open>
  When the key function returns on a product that has the price key, the key is made of
  the three quantities the specification names.
\<close>

lemma key_of_spec:
  assumes "sort_key_py p = Inr k" "price p \<noteq> Absent"
  shows "k = (- rating_or_zero p, - reviews_or_zero p, parsed_price p)"
  using assms
  by (cases "rating p"; cases "reviews p"; cases "price p")
     (auto simp: sort_key_py_def rating_or_zero_def reviews_or_zero_def parsed_price_def
        get_def get_or_def or_zero_def Let_def split: price_value.splits sum.splits if_splits)

lemma key_le_ranked:
  assumes "sort_key_py p = Inr (key_of p)" "price p \<noteq> Absent"
      and "sort_key_py q = Inr (key_of q)" "price q \<noteq> Absent"
  shows "key_of p \<le> key_of q \<longleftrightarrow> ranked_before p q"
  using key_of_spec [OF assms(1,2)] key_of_spec [OF assms(3,4)]
  by (auto simp: ranked_before_def)

lemma key_eq_tied:
  assumes "sort_key_py p = Inr (key_of p)" "price p \<noteq> Absent"
      and "sort_key_py q = Inr (key_of q)" "price q \<noteq> Absent"
  shows "key_of p = key_of q \<longleftrightarrow> tied p q"
  using key_of_spec [OF assms(1,2)] key_of_spec [OF assms(3,4)]
  by (auto simp: tied_def)

lemma tied_commute: "tied p q = tied q p"
  by (auto simp: tied_def)

section \<open>Properties of the parser\<close>

lemma parse_line_invariant:
  assumes "snd st = set (fst st)" "distinct (fst st)" "\<forall>x\<in>set (fst st). \<not> is_placeholder_text x"
  shows "snd (parse_line l st) = set (fst (parse_line l st)) \<and>
         distinct (fst (parse_line l st)) \<and>
         (\<forall>x\<in>set (fst (parse_line l st)). \<not> is_placeholder_text x)"
  using assms by (auto simp: parse_line_def Let_def split: list.splits)

lemma parse_lines_invariant:
  assumes "snd st = set (fst st)" "distinct (fst st)" "\<forall>x\<in>set (fst st). \<not> is_placeholder_text x"
  shows "snd (parse_lines ls st) = set (fst (parse_lines ls st)) \<and>
         distinct (fst (parse_lines ls st)) \<and>
         (\<forall>x\<in>set (fst (parse_lines ls st)). \<not> is_placeholder_text x)"
  using assms
proof (induction ls arbitrary: st)
  case Nil
  then show ?case by simp
next
  case (Cons l ls)
  from parse_line_invariant [OF Cons.prems, of l]
  have "snd (parse_line l st) = set (fst (parse_line l st))"
    "distinct (fst (parse_line l st))"
    "\<forall>x\<in>set (fst (parse_line l st)). \<not> is_placeholder_text x"
    by simp_all
  from Cons.IH [OF this] show ?case by simp
qed

lemma parse_section_clean:
  "distinct (fst (parse_lines ls ([], {}))) \<and>
   (\<forall>x\<in>set (fst (parse_lines ls ([], {}))). \<not> is_placeholder_text x)"
  using parse_lines_invariant [of "([], {})" ls] by simp

text \<open>
  On every input, neither output list has a repeated entry or an entry that contains
  a placeholder phrase.
\<close>

lemma parse_analysis_text_clean:
  "distinct (fst (parse_analysis_text t)) \<and> distinct (snd (parse_analysis_text t)) \<and>
   (\<forall>x\<in>set (fst (parse_analysis_text t)) \<union> set (snd (parse_analysis_text t)).
      \<not> is_placeholder_text x)"
  using parse_section_clean
  by (auto simp: parse_analysis_text_def Let_def split: list.splits)

section \<open>Properties of the stage orchestrator\<close>

lemma insort_key_map:
  "insort_key f (g x) (map g xs) = map g (insort_key (\<lambda>y. f (g y)) x xs)"
  by (induction xs) simp_all

lemma sort_key_map: "sort_key f (map g xs) = map g (sort_key (\<lambda>y. f (g y)) xs)"
  by (induction xs) (simp_all add: insort_key_map)

lemma gather_id: "gather finish_time results = results"
proof -
  let ?g = "\<lambda>i. (i, results ! i)"
  let ?perm = "sort_key finish_time [0..<length results]"
  have "sort ?perm = [0..<length results]"
    by (rule properties_for_sort) simp_all
  then have "sort_key fst (map ?g ?perm) = map ?g [0..<length results]"
    by (simp add: sort_key_map)
  then have "gather finish_time results = map (\<lambda>i. results ! i) [0..<length results]"
    by (simp add: gather_def comp_def)
  then show ?thesis by (simp add: map_nth)
qed

lemma asins_of_Inr:
  "asins_of ps = Inr as \<Longrightarrow> as = map (\<lambda>p. get (asin p)) ps \<and> (\<forall>p\<in>set ps. asin p \<noteq> Absent)"
  by (induction ps arbitrary: as) (auto split: field.splits sum.splits)

lemma asins_of_present:
  "\<forall>p\<in>set ps. asin p \<noteq> Absent \<Longrightarrow> asins_of ps = Inr (map (\<lambda>p. get (asin p)) ps)"
  by (induction ps) (auto split: field.splits sum.splits)

lemma check_results_map_Inr [simp]: "check_results (map Inr vs) = Inr vs"
  by (induction vs) simp_all

lemma map_eq_map_Inr:
  "map f xs = map Inr ys \<longleftrightarrow> length ys = length xs \<and> (\<forall>i<length xs. f (xs ! i) = Inr (ys ! i))"
  by (auto simp: list_eq_iff_nth_eq)

lemma check_results_Inr: "check_results rs = Inr vs \<longleftrightarrow> rs = map Inr vs"
proof
  show "check_results rs = Inr vs \<Longrightarrow> rs = map Inr vs"
    by (induction rs arbitrary: vs) (auto split: sum.splits)
qed simp

lemma fetch_reviews_loop_Inr:
  "fetch_reviews_loop f as acc = Inr rvs \<longleftrightarrow> (\<exists>new. rvs = acc @ new \<and> map f as = map Inr new)"
proof (induction as arbitrary: acc)
  case Nil
  then show ?case by auto
next
  case (Cons a as)
  show ?case
  proof (cases "f a")
    case (Inl e)
    then show ?thesis by auto
  next
    case (Inr rs)
    have "(\<exists>new. rvs = (acc @ [rs]) @ new \<and> map f as = map Inr new) \<longleftrightarrow>
          (\<exists>new. rvs = acc @ new \<and> map f (a # as) = map Inr new)" (is "?L \<longleftrightarrow> ?R")
    proof
      assume ?L
      then obtain new where "rvs = (acc @ [rs]) @ new" "map f as = map Inr new" by blast
      with Inr show ?R by (intro exI [of _ "rs # new"]) simp
    next
      assume ?R
      then obtain new where n: "rvs = acc @ new" "map f (a # as) = map Inr new" by blast
      with Inr obtain new' where "new = rs # new'" by (cases new) auto
      with n show ?L by (intro exI [of _ new']) simp
    qed
    with Inr Cons.IH [of "acc @ [rs]"] show ?thesis by simp
  qed
qed

lemma collect_product_data_Inr:
  "collect_product_data fpd frv ft products = Inr (pds, rvs) \<longleftrightarrow>
     (\<forall>p\<in>set products. asin p \<noteq> Absent) \<and>
     map (\<lambda>p. fpd (get (asin p))) products = map Inr pds \<and>
     map (\<lambda>p. frv (get (asin p))) products = map Inr rvs"
proof (cases "asins_of products")
  case (Inl e)
  then have "\<not> (\<forall>p\<in>set products. asin p \<noteq> Absent)"
    using asins_of_present [of products] by auto
  with Inl show ?thesis by (simp add: collect_product_data_def)
next
  case (Inr as)
  from asins_of_Inr [OF this]
  have as: "as = map (\<lambda>p. get (asin p)) products" and pres: "\<forall>p\<in>set products. asin p \<noteq> Absent"
    by simp_all
  have rv: "fetch_reviews_loop frv as [] = Inr rvs \<longleftrightarrow> map frv as = map Inr rvs"
    using fetch_reviews_loop_Inr [of frv as "[]" rvs] by auto
  have pd: "check_results (map fpd as) = Inr pds \<longleftrightarrow> map fpd as = map Inr pds"
    by (rule check_results_Inr)
  have "collect_product_data fpd frv ft products = Inr (pds, rvs) \<longleftrightarrow>
      check_results (map fpd as) = Inr pds \<and> fetch_reviews_loop frv as [] = Inr rvs"
    by (auto simp: collect_product_data_def Inr gather_id split: sum.splits)
  with pres rv pd show ?thesis by (simp add: as comp_def)
qed

lemma analysis_requests_Inr:
  "analysis_requests i ps pds rvs = Inr reqs \<longleftrightarrow>
     length reqs = length ps \<and>
     (\<forall>k<length ps. analysis_request (i + k) (ps ! k) pds rvs = Inr (reqs ! k))"
proof (induction ps arbitrary: i reqs)
  case Nil
  then show ?case by auto
next
  case (Cons p ps)
  note IH = Cons.IH
  show ?case
  proof (cases reqs)
    case Nil
    then show ?thesis by (auto split: sum.splits)
  next
    case (Cons r rs)
    have "(\<forall>k<Suc (length ps). analysis_request (i + k) ((p # ps) ! k) pds rvs = Inr ((r # rs) ! k)) \<longleftrightarrow>
          analysis_request i p pds rvs = Inr r \<and>
          (\<forall>k<length ps. analysis_request (Suc i + k) (ps ! k) pds rvs = Inr (rs ! k))"
      by (simp add: All_less_Suc2)
    with Cons IH [of "Suc i" rs] show ?thesis
      by (auto split: sum.splits)
  qed
qed

lemma analyze_all_products_Inr:
  "analyze_all_products analyze ft products pds rvs = Inr analyses \<longleftrightarrow>
     (\<exists>reqs. analysis_requests 0 products pds rvs = Inr reqs \<and> map analyze reqs = map Inr analyses)"
  by (auto simp: analyze_all_products_def gather_id check_results_Inr split: sum.splits)

section \<open>Properties of the tagging loop\<close>

lemma subscript_present: "f \<noteq> Absent \<Longrightarrow> subscript f = Inr (py_value f)"
  by (cases f) (simp_all add: subscript_def py_value_def)

lemma tag_review_present:
  assumes "i < length tops" "asin (tops ! i) \<noteq> Absent" "title (tops ! i) \<noteq> Absent"
  shows "tag_review tops i r h = Inr (h(r := tagged (tops ! i) (h r)))"
  using assms by (simp add: tag_review_def subscript_present tagged_def Let_def)

lemma tag_review_list_present:
  assumes "i < length tops" "asin (tops ! i) \<noteq> Absent" "title (tops ! i) \<noteq> Absent"
  shows "\<exists>h'. tag_review_list tops i rs (h, acc) = Inr (h', acc @ rs) \<and>
           (\<forall>r\<in>set rs. h' r = tagged (tops ! i) (h r)) \<and> (\<forall>r. r \<notin> set rs \<longrightarrow> h' r = h r)"
proof (induction rs arbitrary: h acc)
  case Nil
  then show ?case by simp
next
  case (Cons r rs)
  let ?h1 = "h(r := tagged (tops ! i) (h r))"
  from Cons.IH [of ?h1 "acc @ [r]"] obtain h' where
    h': "tag_review_list tops i rs (?h1, acc @ [r]) = Inr (h', (acc @ [r]) @ rs)"
        "\<forall>x\<in>set rs. h' x = tagged (tops ! i) (?h1 x)" "\<forall>x. x \<notin> set rs \<longrightarrow> h' x = ?h1 x"
    by blast
  have idem: "tagged (tops ! i) (tagged (tops ! i) (h r)) = tagged (tops ! i) (h r)"
    by (simp add: tagged_def)
  have "tag_review_list tops i (r # rs) (h, acc) = Inr (h', acc @ r # rs)"
    using h'(1) by (simp add: tag_review_present [OF assms])
  moreover have "\<forall>x\<in>set (r # rs). h' x = tagged (tops ! i) (h x)"
    using h'(2,3) idem by (metis fun_upd_apply set_ConsD)
  moreover have "\<forall>x. x \<notin> set (r # rs) \<longrightarrow> h' x = h x"
    using h'(3) by simp
  ultimately show ?case by blast
qed

lemma tag_reviews_from_present:
  assumes "i + length rls \<le> length tops" "\<forall>p\<in>set tops. asin p \<noteq> Absent \<and> title p \<noteq> Absent"
      and "distinct (concat rls)"
  shows "\<exists>h'. tag_reviews_from tops i rls (h, acc) = Inr (h', acc @ concat rls) \<and>
           (\<forall>k<length rls. \<forall>r\<in>set (rls ! k). h' r = tagged (tops ! (i + k)) (h r)) \<and>
           (\<forall>r. r \<notin> set (concat rls) \<longrightarrow> h' r = h r)"
  using assms
proof (induction rls arbitrary: i h acc)
  case Nil
  then show ?case by simp
next
  case (Cons rl rls)
  from Cons.prems have i: "i < length tops" "asin (tops ! i) \<noteq> Absent" "title (tops ! i) \<noteq> Absent"
    by auto
  from tag_review_list_present [OF i, of rl h acc] obtain h1 where
    h1: "tag_review_list tops i rl (h, acc) = Inr (h1, acc @ rl)"
        "\<forall>r\<in>set rl. h1 r = tagged (tops ! i) (h r)" "\<forall>r. r \<notin> set rl \<longrightarrow> h1 r = h r"
    by blast
  from Cons.prems have prems': "Suc i + length rls \<le> length tops" "distinct (concat rls)"
    and disj: "set rl \<inter> set (concat rls) = {}"
    by auto
  from Cons.IH [OF prems'(1) Cons.prems(2) prems'(2), of h1 "acc @ rl"] obtain h' where
    h': "tag_reviews_from tops (Suc i) rls (h1, acc @ rl) = Inr (h', (acc @ rl) @ concat rls)"
        "\<forall>k<length rls. \<forall>r\<in>set (rls ! k). h' r = tagged (tops ! (Suc i + k)) (h1 r)"
        "\<forall>r. r \<notin> set (concat rls) \<longrightarrow> h' r = h1 r"
    by blast
  have run: "tag_reviews_from tops i (rl # rls) (h, acc) = Inr (h', acc @ concat (rl # rls))"
    using h1(1) h'(1) by simp
  have tagged: "h' r = tagged (tops ! (i + k)) (h r)"
    if "k < length (rl # rls)" "r \<in> set ((rl # rls) ! k)" for k r
  proof (cases k)
    case 0
    with that have r: "r \<in> set rl" by simp
    with disj have "r \<notin> set (concat rls)" by blast
    with h'(3) h1(2) r 0 show ?thesis by simp
  next
    case (Suc k')
    with that have k': "k' < length rls" "r \<in> set (rls ! k')" by simp_all
    then have "r \<in> set (concat rls)" by auto
    with disj have "r \<notin> set rl" by blast
    with h'(2) h1(3) k' Suc show ?thesis by simp
  qed
  have frame: "h' r = h r" if "r \<notin> set (concat (rl # rls))" for r
    using that h'(3) h1(3) by simp
  from run tagged frame show ?case by blast
qed


section \<open>Claims about the Filter/Rank Engine\<close>

text \<open>
  Claim C2, as stated, fails: a rating of zero is present and reaches a threshold of
  zero, yet the loop drops the candidate, because the test \<open>rating and \<dots>\<close> reads a
  zero like a missing value.
\<close>

theorem zero_rating_counterexample:
  "spec_passes (Some 0) None (example_product ''B01'' 0 10 ''$5.00'') \<and>
   \<not> passes_filters (Some 0) None (example_product ''B01'' 0 10 ''$5.00'') \<and>
   filter_products (Some 0) None [example_product ''B01'' 0 10 ''$5.00''] = []"
  by code_simp

text \<open>
  Claim C2 (amended): the filter admits a candidate if and only if (the minimum rating
  is unset, or the rating is present, not zero and at least the minimum) and (the
  minimum review count is unset, or the review count is present, not zero and at least
  the minimum); the loop appends the candidate exactly when this holds and its
  identifier has not been accepted before.
\<close>

theorem filter_admits_iff:
  "(passes_filters min_rating min_reviews p \<longleftrightarrow>
      (min_rating = None \<or>
         (\<exists>m r. min_rating = Some m \<and> get (rating p) = Some r \<and> r \<noteq> 0 \<and> m \<le> r)) \<and>
      (min_reviews = None \<or>
         (\<exists>m n. min_reviews = Some m \<and> get (reviews p) = Some n \<and> n \<noteq> 0 \<and> m \<le> n))) \<and>
   filter_step min_rating min_reviews p (acc, seen) =
     (if get (asin p) \<notin> seen \<and> passes_filters min_rating min_reviews p
      then (acc @ [filtered_product p], insert (get (asin p)) seen)
      else (acc, seen))"
  by (cases "rating p"; cases "reviews p"; cases min_rating; cases min_reviews)
     (auto simp: passes_filters_def passes_rating_def passes_reviews_def get_def get_or_def
        filter_step_def Let_def)

theorem filter_admits_iff_witness:
  "passes_filters (Some 4) (Some 100) (example_product ''B01'' (9 / 2) 200 ''$20.00'') \<and>
   filter_step (Some 4) (Some 100) (example_product ''B01'' (9 / 2) 200 ''$20.00'') ([], {}) =
     ([filtered_product (example_product ''B01'' (9 / 2) 200 ''$20.00'')], {Some ''B01''})"
proof -
  let ?p = "example_product ''B01'' (9 / 2) 200 ''$20.00''"
  have r: "\<exists>m r. Some (4::rat) = Some m \<and> get (rating ?p) = Some r \<and> r \<noteq> 0 \<and> m \<le> r"
    by (intro exI [of _ 4] exI [of _ "9 / 2"]) (simp add: example_product_def get_def)
  have n: "\<exists>m n. Some (100::int) = Some m \<and> get (reviews ?p) = Some n \<and> n \<noteq> 0 \<and> m \<le> n"
    by (intro exI [of _ 100] exI [of _ 200]) (simp add: example_product_def get_def)
  have a: "get (asin ?p) = Some ''B01''"
    by (simp add: example_product_def get_def)
  note inst = filter_admits_iff [of "Some 4" "Some 100" ?p "[]" "{}"]
  from inst r n have p: "passes_filters (Some 4) (Some 100) ?p" by blast
  from inst have "filter_step (Some 4) (Some 100) ?p ([], {}) =
     (if get (asin ?p) \<notin> {} \<and> passes_filters (Some 4) (Some 100) ?p
      then ([] @ [filtered_product ?p], insert (get (asin ?p)) {})
      else ([], {}))" by blast
  with p a show ?thesis by simp
qed

text \<open>
  Claim C3: ranking and truncation are meant to return on every input, a malformed
  price degrading to the sentinel. The code raises instead on a price string that keeps
  more than one dot after stripping (a price range), and on a selected record whose
  title is missing, which the logging loop subscripts.
\<close>

theorem select_top_products_raises:
  "select_top_products [example_product ''B01'' (9 / 2) 200 ''$10.99 - $15.99''] 10 = Inl ValueError \<and>
   select_top_products (filter_products None None [untitled_product ''B01'' (9 / 2) 200 ''$20.00'']) 10
     = Inl TypeError"
  by code_simp

text \<open>
  Claim C4, as stated, fails: the identifier is recorded as seen only when a candidate
  passes the filter, so a later duplicate is kept when the first occurrence fails the
  filter. Deduplicating first would leave nothing here.
\<close>

theorem later_duplicate_kept_counterexample:
  "select_top_products
     (filter_products (Some 4) None
        [example_product ''B01'' 3 50 ''$9.00'', example_product ''B01'' (9 / 2) 200 ''$20.00'']) 10
     = Inr [filtered_product (example_product ''B01'' (9 / 2) 200 ''$20.00'')] \<and>
   dedup_first [example_product ''B01'' 3 50 ''$9.00'', example_product ''B01'' (9 / 2) 200 ''$20.00''] {}
     = [example_product ''B01'' 3 50 ''$9.00''] \<and>
   spec_filter_products (Some 4) None
     [example_product ''B01'' 3 50 ''$9.00'', example_product ''B01'' (9 / 2) 200 ''$20.00''] = []"
  by code_simp

text \<open>
  Claim C4 (amended): for every candidate sequence and non-negative limit, the output of
  filtering, ranking and truncation has no two entries with the same identifier, has at
  most \<open>limit\<close> entries, and every entry is the projection of the first candidate with
  its identifier that passes the filter (filtering precedes the recording of
  identifiers).
\<close>

theorem shortlist_distinct_first_passing:
  assumes "select_top_products (filter_products mr mv raw) limit = Inr out" and "0 \<le> limit"
  shows "distinct (map (\<lambda>q. get (asin q)) out) \<and> int (length out) \<le> limit \<and>
         (\<forall>q\<in>set out. \<exists>i<length raw. q = filtered_product (raw ! i) \<and>
             passes_filters mr mv (raw ! i) \<and>
             (\<forall>j<i. get (asin (raw ! j)) = get (asin (raw ! i)) \<longrightarrow>
                    \<not> passes_filters mr mv (raw ! j)))"
proof -
  let ?fp = "filter_products mr mv raw"
  from select_top_products_Inr(1) [OF assms(1)] assms(2)
  have out: "out = take (nat limit) (sort_key key_of ?fp)"
    by (simp add: slice_to_nonneg)
  have "distinct (map (\<lambda>q. get (asin q)) ?fp)"
    by (simp add: filter_products_kept kept_distinct)
  moreover have "mset (map (\<lambda>q. get (asin q)) (sort_key key_of ?fp)) =
      mset (map (\<lambda>q. get (asin q)) ?fp)"
    by simp
  ultimately have "distinct (map (\<lambda>q. get (asin q)) (sort_key key_of ?fp))"
    by (metis mset_eq_imp_distinct_iff)
  then have d: "distinct (map (\<lambda>q. get (asin q)) out)"
    by (simp add: out take_map [symmetric] distinct_take)
  have l: "int (length out) \<le> limit" using assms(2) by (simp add: out)
  have "set out \<subseteq> set ?fp"
    using set_take_subset [of "nat limit" "sort_key key_of ?fp"] by (simp add: out)
  then have o: "\<forall>q\<in>set out. \<exists>i<length raw. q = filtered_product (raw ! i) \<and>
             passes_filters mr mv (raw ! i) \<and>
             (\<forall>j<i. get (asin (raw ! j)) = get (asin (raw ! i)) \<longrightarrow>
                    \<not> passes_filters mr mv (raw ! j))"
    using kept_origin [of _ mr mv "{}" raw] by (auto simp: filter_products_kept)
  from d l o show ?thesis by blast
qed

theorem shortlist_distinct_first_passing_witness:
  "select_top_products
     (filter_products None None
        [example_product ''A'' (9 / 2) 200 ''$20.00'', example_product ''B'' (9 / 2) 200 ''$15.00'',
         example_product ''A'' 1 1 ''$1'']) 10
     = Inr [filtered_product (example_product ''B'' (9 / 2) 200 ''$15.00''),
            filtered_product (example_product ''A'' (9 / 2) 200 ''$20.00'')] \<and>
   distinct (map (\<lambda>q. get (asin q))
     [filtered_product (example_product ''B'' (9 / 2) 200 ''$15.00''),
      filtered_product (example_product ''A'' (9 / 2) 200 ''$20.00'')]) \<and>
   int (length [filtered_product (example_product ''B'' (9 / 2) 200 ''$15.00''),
      filtered_product (example_product ''A'' (9 / 2) 200 ''$20.00'')]) \<le> 10"
proof -
  have run: "select_top_products
     (filter_products None None
        [example_product ''A'' (9 / 2) 200 ''$20.00'', example_product ''B'' (9 / 2) 200 ''$15.00'',
         example_product ''A'' 1 1 ''$1'']) 10
     = Inr [filtered_product (example_product ''B'' (9 / 2) 200 ''$15.00''),
            filtered_product (example_product ''A'' (9 / 2) 200 ''$20.00'')]"
    by code_simp
  have lim: "(0::int) \<le> 10" by simp
  from shortlist_distinct_first_passing [OF run lim] run show ?thesis by blast
qed

text \<open>
  Claim C5, as stated, fails: a missing price is read as the number 999999, which is
  not above every price. Of two entries with the same rating and review count, the one
  without a price is ranked before the one priced at a million, so it does not rank
  last.
\<close>

theorem sentinel_not_last_counterexample:
  "sorted_products
     (filter_products None None
        [example_product ''B01'' (9 / 2) 200 ''$1,000,000.00'', unpriced_product ''B02'' (9 / 2) 200])
     = Inr [filtered_product (unpriced_product ''B02'' (9 / 2) 200),
            filtered_product (example_product ''B01'' (9 / 2) 200 ''$1,000,000.00'')] \<and>
   parsed_price (filtered_product (example_product ''B01'' (9 / 2) 200 ''$1,000,000.00'')) = Num 1000000 \<and>
   \<not> unpriced_last
     [filtered_product (unpriced_product ''B02'' (9 / 2) 200),
      filtered_product (example_product ''B01'' (9 / 2) 200 ''$1,000,000.00'')]"
  by code_simp

text \<open>
  Claim C5 (amended): for every filtered candidate sequence in which the digits and
  dots of every price string form a decimal numeral or are none at all, the ranking
  returns a rearrangement of the sequence that is sorted descending by rating (missing
  read as 0), then descending by review count (missing read as 0), then ascending by
  the price, which is the double nearest to the numeral and the number 999999 for a
  missing price and for a price string without digits and dots; entries that tie on
  all three keys keep their relative input order.
\<close>

theorem ranked_output_sorted_stable:
  assumes "\<forall>p\<in>set (filter_products mr mv raw). price_parses p"
  shows "\<exists>ys. sorted_products (filter_products mr mv raw) = Inr ys \<and>
           mset ys = mset (filter_products mr mv raw) \<and>
           sorted_wrt ranked_before ys \<and>
           (\<forall>p\<in>set ys. filter (tied p) ys = filter (tied p) (filter_products mr mv raw))"
proof -
  let ?fp = "filter_products mr mv raw"
  define ys where "ys = sort_key key_of ?fp"
  from assms have "\<forall>p\<in>set ?fp. \<exists>k. sort_key_py p = Inr k"
    using sort_key_py_parses by blast
  then have sp: "sorted_products ?fp = Inr ys"
    unfolding ys_def by (rule sorted_products_all_Inr)
  from sorted_products_Inr [OF sp]
  have keys: "\<forall>p\<in>set ?fp. sort_key_py p = Inr (key_of p)"
    by simp
  have pres: "\<forall>p\<in>set ?fp. price p \<noteq> Absent"
    using kept_keys_present by (auto simp: filter_products_kept)
  have set_ys: "set ys = set ?fp" by (simp add: ys_def)
  have "sorted (map key_of ys)" by (simp add: ys_def)
  then have "sorted_wrt (\<lambda>p q. key_of p \<le> key_of q) ys" by (simp add: sorted_map)
  then have srt: "sorted_wrt ranked_before ys"
    by (rule sorted_wrt_mono_rel [rotated]) (use keys pres set_ys key_le_ranked in blast)
  have stab: "filter (tied p) ys = filter (tied p) ?fp" if "p \<in> set ys" for p
  proof -
    have p: "sort_key_py p = Inr (key_of p)" "price p \<noteq> Absent"
      using that keys pres set_ys by auto
    have "filter (tied p) ys = filter (\<lambda>q. key_of q = key_of p) ys"
      by (rule filter_cong) (use p keys pres set_ys key_eq_tied tied_commute in \<open>auto\<close>)
    also have "\<dots> = filter (\<lambda>q. key_of q = key_of p) ?fp"
      by (simp add: ys_def sort_key_stable)
    also have "\<dots> = filter (tied p) ?fp"
      by (rule filter_cong) (use p keys pres key_eq_tied tied_commute in \<open>auto\<close>)
    finally show ?thesis .
  qed
  have "mset ys = mset ?fp" by (simp add: ys_def)
  with sp srt stab show ?thesis by blast
qed

theorem ranked_output_sorted_stable_witness:
  "sorted_products (filter_products None None ranking_example)
     = Inr [filtered_product (example_product ''D'' (9 / 2) 200 ''$15.50''),
            filtered_product (example_product ''F'' (9 / 2) 200 ''15.5''),
            filtered_product (example_product ''C'' (9 / 2) 200 ''AU$1,299.00''),
            filtered_product (unpriced_product ''G'' (9 / 2) 200),
            filtered_product (example_product ''B'' (9 / 2) 100 ''$30.00''),
            filtered_product (example_product ''A'' 4 500 ''$10.00''),
            filtered_product (bare_product ''E'')] \<and>
   sorted_wrt ranked_before
     [filtered_product (example_product ''D'' (9 / 2) 200 ''$15.50''),
      filtered_product (example_product ''F'' (9 / 2) 200 ''15.5''),
      filtered_product (example_product ''C'' (9 / 2) 200 ''AU$1,299.00''),
      filtered_product (unpriced_product ''G'' (9 / 2) 200),
      filtered_product (example_product ''B'' (9 / 2) 100 ''$30.00''),
      filtered_product (example_product ''A'' 4 500 ''$10.00''),
      filtered_product (bare_product ''E'')]"
proof -
  have parses: "\<forall>p\<in>set (filter_products None None ranking_example). price_parses p"
    by code_simp
  have run: "sorted_products (filter_products None None ranking_example)
     = Inr [filtered_product (example_product ''D'' (9 / 2) 200 ''$15.50''),
            filtered_product (example_product ''F'' (9 / 2) 200 ''15.5''),
            filtered_product (example_product ''C'' (9 / 2) 200 ''AU$1,299.00''),
            filtered_product (unpriced_product ''G'' (9 / 2) 200),
            filtered_product (example_product ''B'' (9 / 2) 100 ''$30.00''),
            filtered_product (example_product ''A'' 4 500 ''$10.00''),
            filtered_product (bare_product ''E'')]"
    by code_simp
  from ranked_output_sorted_stable [OF parses] run show ?thesis by auto
qed

text \<open>
  Claim C8: for every candidate sequence and non-negative limit on which ranking and
  truncation return, applying them again to the output with the same limit returns
  that output unchanged.
\<close>

theorem ranking_idempotent:
  assumes "select_top_products ps limit = Inr out" and "0 \<le> limit"
  shows "select_top_products out limit = Inr out"
proof -
  from select_top_products_Inr [OF assms(1)] assms(2)
  have out: "out = take (nat limit) (sort_key key_of ps)"
    and keys: "\<forall>p\<in>set ps. sort_key_py p = Inr (key_of p)"
    and titles: "\<forall>p\<in>set out. \<exists>t. title p = Val t"
    by (simp_all add: slice_to_nonneg)
  have "set out \<subseteq> set ps"
    using set_take_subset [of "nat limit" "sort_key key_of ps"] by (simp add: out)
  with keys have "\<forall>p\<in>set out. \<exists>k. sort_key_py p = Inr k" by blast
  then have sp: "sorted_products out = Inr (sort_key key_of out)"
    by (rule sorted_products_all_Inr)
  have "sorted (map key_of (sort_key key_of ps))" by simp
  then have "sorted (take (nat limit) (map key_of (sort_key key_of ps)))"
    by (rule sorted_wrt_take)
  then have "sorted (map key_of out)" by (simp add: out take_map)
  then have id: "sort_key key_of out = out" by (rule sort_key_id_if_sorted)
  have len: "length out \<le> nat limit" by (simp add: out)
  have "slice_to out limit = out" using assms(2) len by (simp add: slice_to_nonneg)
  moreover have "log_selected out = Inr ()" using titles by (simp add: log_selected_Inr)
  ultimately show ?thesis by (simp add: select_top_products_def sp id)
qed

theorem ranking_idempotent_witness:
  "select_top_products
     [example_product ''A'' (9 / 2) 200 ''$20.00'', example_product ''B'' (9 / 2) 200 ''$15.00'',
      example_product ''C'' 3 10 ''$1.00''] 2
     = Inr [example_product ''B'' (9 / 2) 200 ''$15.00'', example_product ''A'' (9 / 2) 200 ''$20.00''] \<and>
   select_top_products
     [example_product ''B'' (9 / 2) 200 ''$15.00'', example_product ''A'' (9 / 2) 200 ''$20.00''] 2
     = Inr [example_product ''B'' (9 / 2) 200 ''$15.00'', example_product ''A'' (9 / 2) 200 ''$20.00'']"
proof -
  have run: "select_top_products
     [example_product ''A'' (9 / 2) 200 ''$20.00'', example_product ''B'' (9 / 2) 200 ''$15.00'',
      example_product ''C'' 3 10 ''$1.00''] 2
     = Inr [example_product ''B'' (9 / 2) 200 ''$15.00'', example_product ''A'' (9 / 2) 200 ''$20.00'']"
    by code_simp
  have lim: "(0::int) \<le> 2" by simp
  from ranking_idempotent [OF run lim] run show ?thesis by blast
qed

section \<open>Claims about the Stage Orchestrator\<close>

text \<open>
  Claim C1: a fetch that fails for one shortlist entry is meant to fail the detail
  stage. The detail provider answers a transport failure and a non-success response
  with an empty record instead of raising, and the orchestrator's check for errors
  looks for raised exceptions only. So with the request for the second of three
  entries failing, either way, the stage returns normally: all three slots, the second
  one empty, and the reviews fetched for all three entries.
\<close>

theorem failed_fetch_reported_as_success:
  "collect_product_data (fetch_product_data_async failing_second) one_review last_first
     [example_product ''B01'' (9 / 2) 200 ''$20.00'', example_product ''B02'' 4 150 ''$25.00'',
      example_product ''B03'' 4 100 ''$30.00'']
   = Inr ([example_detail ''Kettle'', empty_dict, example_detail ''Kettle''], [[0], [0], [0]]) \<and>
   collect_product_data (fetch_product_data_async rejecting_second) one_review last_first
     [example_product ''B01'' (9 / 2) 200 ''$20.00'', example_product ''B02'' 4 150 ''$25.00'',
      example_product ''B03'' 4 100 ''$30.00'']
   = Inr ([example_detail ''Kettle'', empty_dict, example_detail ''Kettle''], [[0], [0], [0]])"
  by (simp add: collect_product_data_def gather_id fetch_product_data_async_def get_product_data_def
      failing_second_def rejecting_second_def example_product_def get_def one_review_def)

text \<open>
  Claim C7, as stated, fails: the detail-stage title has priority over the entry's
  title. Here both titles are present, the request carries the detail-stage one, and
  the description is the one the claim describes.
\<close>

theorem detail_title_wins_counterexample:
  "analysis_request 0 (example_product ''B01'' (9 / 2) 200 ''$20.00'')
     [titled_detail ''Kettle 1.7L Steel'' [''Boils fast'', ''Auto shut-off'']] [[1::nat, 2]]
     = Inr \<lparr> req_title = Some ''Kettle 1.7L Steel'',
             req_description = ''- Boils fast\<newline>- Auto shut-off'',
             req_reviews = [1, 2] \<rparr> \<and>
   spec_request_title
     \<lparr> rf_title = Val ''Kettle 1.7L Steel'',
       feature_bullets = Val (BulletList [''Boils fast'', ''Auto shut-off'']) \<rparr>
     (example_product ''B01'' (9 / 2) 200 ''$20.00'') = Some ''Kettle'' \<and>
   spec_request_description
     \<lparr> rf_title = Val ''Kettle 1.7L Steel'',
       feature_bullets = Val (BulletList [''Boils fast'', ''Auto shut-off'']) \<rparr>
     = ''- Boils fast\<newline>- Auto shut-off''"
  by (simp add: analysis_request_def titled_detail_def example_product_def get_or_def get_def
      request_title_def request_description_def spec_request_title_def spec_request_description_def
      bullet_line_def)

text \<open>
  Claim C7 (amended): the analysis request of a shortlist entry carries the
  detail-stage title if the detail record has one, otherwise the entry's title,
  otherwise the literal \<open>Unknown Product\<close>; its description is the detail stage's
  feature bullets, each prefixed by the bullet marker, joined one per line, when the
  detail record has a non-empty list of them, and the literal placeholder when the
  feature entry is \<open>None\<close>; and its reviews are the entry's full review list. Nothing
  is said of a detail record with no feature entry or with an empty list.
\<close>

theorem analysis_request_contents:
  assumes "i < length product_data_list" and "i < length reviews_list"
      and "get_or (pd_product (product_data_list ! i)) empty_rf_product = Some rf"
  shows "\<exists>req. analysis_request i product product_data_list reviews_list = Inr req \<and>
           req_title req =
             (case rf_title rf of
                Val t \<Rightarrow> Some t
              | Null \<Rightarrow> None
              | Absent \<Rightarrow> (case title product of
                             Val t \<Rightarrow> Some t | Null \<Rightarrow> None | Absent \<Rightarrow> Some ''Unknown Product'')) \<and>
           (\<forall>b bs. feature_bullets rf = Val (BulletList (b # bs)) \<longrightarrow>
              req_description req = join ''\<newline>'' (map bullet_line (b # bs))) \<and>
           (feature_bullets rf = Null \<longrightarrow> req_description req = ''No description available'') \<and>
           req_reviews req = reviews_list ! i"
  using assms
  by (cases "rf_title rf"; cases "title product")
     (auto simp: analysis_request_def request_title_def request_description_def get_or_def)

theorem analysis_request_contents_witness:
  "analysis_request 0 (example_product ''B01'' (9 / 2) 200 ''$20.00'')
     [bulleted_detail [''Boils fast'', ''Auto shut-off'']] [[1::nat, 2]]
     = Inr \<lparr> req_title = Some ''Kettle'',
             req_description = ''- Boils fast\<newline>- Auto shut-off'',
             req_reviews = [1, 2] \<rparr>"
proof -
  let ?rf = "\<lparr> rf_title = Absent, feature_bullets = Val (BulletList [''Boils fast'', ''Auto shut-off'']) \<rparr>"
  have 1: "0 < length [bulleted_detail [''Boils fast'', ''Auto shut-off'']]" by simp
  have 2: "0 < length [[1::nat, 2]]" by simp
  have 3: "get_or (pd_product ([bulleted_detail [''Boils fast'', ''Auto shut-off'']] ! 0)) empty_rf_product
      = Some ?rf"
    by (simp add: bulleted_detail_def get_or_def)
  from analysis_request_contents [OF 1 2 3, of "example_product ''B01'' (9 / 2) 200 ''$20.00''"]
  obtain req where r: "analysis_request 0 (example_product ''B01'' (9 / 2) 200 ''$20.00'')
       [bulleted_detail [''Boils fast'', ''Auto shut-off'']] [[1::nat, 2]] = Inr req"
     "req_title req = Some ''Kettle''"
     "req_description req = ''- Boils fast\<newline>- Auto shut-off''"
     "req_reviews req = [1, 2]"
    by (auto simp: example_product_def bullet_line_def)
  then show ?thesis by (cases req) simp
qed

text \<open>
  Claim C9: every stage returns exactly when each of its tasks returns (and, for the
  detail and review stage, every shortlist entry has an identifier), and then its output
  has the length of the shortlist and its \<open>i\<close>-th element is the result of the task
  built for the \<open>i\<close>-th shortlist entry: so it is for the detail stage and the analysis
  stage (gathered concurrently) and for the review stage (run sequentially). The result
  of a stage does not depend on the order in which its tasks complete.
\<close>

theorem stage_outputs_aligned:
  "(collect_product_data fetch_product_data fetch_reviews finish_time products = Inr (pds, rvs) \<longleftrightarrow>
      (\<forall>p\<in>set products. asin p \<noteq> Absent) \<and>
      length pds = length products \<and> length rvs = length products \<and>
      (\<forall>i<length products.
         fetch_product_data (get (asin (products ! i))) = Inr (pds ! i) \<and>
         fetch_reviews (get (asin (products ! i))) = Inr (rvs ! i))) \<and>
   (analyze_all_products analyze finish_time products pds rvs = Inr analyses \<longleftrightarrow>
      length analyses = length products \<and>
      (\<forall>i<length products. \<exists>req.
         analysis_request i (products ! i) pds rvs = Inr req \<and> analyze req = Inr (analyses ! i))) \<and>
   collect_product_data fetch_product_data fetch_reviews finish_time products =
     collect_product_data fetch_product_data fetch_reviews other_time products \<and>
   analyze_all_products analyze finish_time products pds rvs =
     analyze_all_products analyze other_time products pds rvs"
proof -
  have a: "collect_product_data fetch_product_data fetch_reviews finish_time products = Inr (pds, rvs) \<longleftrightarrow>
      (\<forall>p\<in>set products. asin p \<noteq> Absent) \<and>
      length pds = length products \<and> length rvs = length products \<and>
      (\<forall>i<length products.
         fetch_product_data (get (asin (products ! i))) = Inr (pds ! i) \<and>
         fetch_reviews (get (asin (products ! i))) = Inr (rvs ! i))"
    unfolding collect_product_data_Inr map_eq_map_Inr by auto
  have b: "analyze_all_products analyze finish_time products pds rvs = Inr analyses \<longleftrightarrow>
      length analyses = length products \<and>
      (\<forall>i<length products. \<exists>req.
         analysis_request i (products ! i) pds rvs = Inr req \<and> analyze req = Inr (analyses ! i))"
    (is "?L \<longleftrightarrow> ?R")
  proof
    assume ?L
    then obtain reqs where r: "analysis_requests 0 products pds rvs = Inr reqs"
      "map analyze reqs = map Inr analyses"
      by (auto simp: analyze_all_products_Inr)
    from r(1) have lr: "length reqs = length products"
      and rq: "\<forall>k<length products. analysis_request k (products ! k) pds rvs = Inr (reqs ! k)"
      by (simp_all add: analysis_requests_Inr)
    from r(2) have la: "length analyses = length reqs"
      and an: "\<forall>k<length reqs. analyze (reqs ! k) = Inr (analyses ! k)"
      by (simp_all add: map_eq_map_Inr)
    from rq an lr have "\<forall>i<length products. \<exists>req.
         analysis_request i (products ! i) pds rvs = Inr req \<and> analyze req = Inr (analyses ! i)"
      by auto
    with la lr show ?R by simp
  next
    assume R: ?R
    define reqs where
      "reqs = map (\<lambda>i. projr (analysis_request i (products ! i) pds rvs)) [0..<length products]"
    have lr: "length reqs = length products" by (simp add: reqs_def)
    have rq: "analysis_request k (products ! k) pds rvs = Inr (reqs ! k) \<and>
              analyze (reqs ! k) = Inr (analyses ! k)" if "k < length products" for k
    proof -
      from R that obtain req where
        "analysis_request k (products ! k) pds rvs = Inr req" "analyze req = Inr (analyses ! k)"
        by blast
      with that show ?thesis by (simp add: reqs_def)
    qed
    from rq lr have "analysis_requests 0 products pds rvs = Inr reqs"
      by (simp add: analysis_requests_Inr)
    moreover from rq lr R have "map analyze reqs = map Inr analyses"
      by (simp add: map_eq_map_Inr)
    ultimately show ?L by (auto simp: analyze_all_products_Inr)
  qed
  have c: "collect_product_data fetch_product_data fetch_reviews finish_time products =
     collect_product_data fetch_product_data fetch_reviews other_time products"
    by (simp add: collect_product_data_def gather_id cong: sum.case_cong)
  have d: "analyze_all_products analyze finish_time products pds rvs =
     analyze_all_products analyze other_time products pds rvs"
    by (simp add: analyze_all_products_def gather_id cong: sum.case_cong)
  from a b c d show ?thesis by blast
qed

theorem stage_outputs_aligned_witness:
  "collect_product_data (fetch_product_data_async catalogue) reviews_by_asin last_first three_entries
     = Inr ([titled_detail ''Kettle B01'' [''Model B01''], titled_detail ''Kettle B02'' [''Model B02''],
             titled_detail ''Kettle B03'' [''Model B03'']],
            [[''B01-r1'', ''B01-r2''], [''B02-r1'', ''B02-r2''], [''B03-r1'', ''B03-r2'']]) \<and>
   analyze_all_products summarize last_first three_entries
     [titled_detail ''Kettle B01'' [''Model B01''], titled_detail ''Kettle B02'' [''Model B02''],
      titled_detail ''Kettle B03'' [''Model B03'']]
     [[''B01-r1'', ''B01-r2''], [''B02-r1'', ''B02-r2''], [''B03-r1'', ''B03-r2'']]
     = Inr [(Some ''Kettle B01'', ''- Model B01'', 2), (Some ''Kettle B02'', ''- Model B02'', 2),
            (Some ''Kettle B03'', ''- Model B03'', 2)]"
proof -
  let ?pds = "[titled_detail ''Kettle B01'' [''Model B01''], titled_detail ''Kettle B02'' [''Model B02''],
      titled_detail ''Kettle B03'' [''Model B03'']]"
  let ?rvs = "[[''B01-r1'', ''B01-r2''], [''B02-r1'', ''B02-r2''], [''B03-r1'', ''B03-r2'']]"
  let ?ans = "[(Some ''Kettle B01'', ''- Model B01'', 2::nat), (Some ''Kettle B02'', ''- Model B02'', 2),
      (Some ''Kettle B03'', ''- Model B03'', 2)]"
  have tasks: "(\<forall>p\<in>set three_entries. asin p \<noteq> Absent) \<and>
      length ?pds = length three_entries \<and> length ?rvs = length three_entries \<and>
      (\<forall>i<length three_entries.
         fetch_product_data_async catalogue (get (asin (three_entries ! i))) = Inr (?pds ! i) \<and>
         reviews_by_asin (get (asin (three_entries ! i))) = Inr (?rvs ! i))"
    by (simp add: three_entries_def example_product_def get_def fetch_product_data_async_def
        get_product_data_def catalogue_def reviews_by_asin_def All_less_Suc)
  have requests: "length ?ans = length three_entries \<and>
      (\<forall>i<length three_entries. \<exists>req.
         analysis_request i (three_entries ! i) ?pds ?rvs = Inr req \<and> summarize req = Inr (?ans ! i))"
    by (simp add: three_entries_def example_product_def get_or_def analysis_request_def
        titled_detail_def request_title_def request_description_def bullet_line_def summarize_def
        All_less_Suc)
  note aligned = stage_outputs_aligned [of "fetch_product_data_async catalogue" reviews_by_asin
      last_first three_entries ?pds ?rvs summarize ?ans last_first]
  from aligned [THEN conjunct1, THEN iffD2, OF tasks]
    aligned [THEN conjunct2, THEN conjunct1, THEN iffD2, OF requests]
  show ?thesis by (intro conjI)
qed

text \<open>
  Claim C10: the review-saving step mutates the review records in place. When every
  shortlist entry has an identifier and a title, there are at least as many entries as
  review lists, and no review object occurs twice, the step returns, every review of
  the \<open>i\<close>-th list then carries the keys \<open>asin\<close> and \<open>product_title\<close> with the values of
  the \<open>i\<close>-th shortlist entry, its other keys and all other objects are unchanged, the
  flattened list holds the same objects, and the analysis stage is called with the
  same review lists on the mutated heap.
\<close>

theorem reviews_tagged_in_place:
  assumes "length reviews_list \<le> length top_products"
      and "\<forall>p\<in>set top_products. asin p \<noteq> Absent \<and> title p \<noteq> Absent"
      and "distinct (concat reviews_list)"
  shows "\<exists>h'. tag_reviews top_products reviews_list h = Inr (h', concat reviews_list) \<and>
           (\<forall>i<length reviews_list. \<forall>r\<in>set (reviews_list ! i).
              h' r ''asin'' = Some (py_value (asin (top_products ! i))) \<and>
              h' r ''product_title'' = Some (py_value (title (top_products ! i))) \<and>
              (\<forall>k. k \<noteq> ''asin'' \<and> k \<noteq> ''product_title'' \<longrightarrow> h' r k = h r k)) \<and>
           (\<forall>r. r \<notin> set (concat reviews_list) \<longrightarrow> h' r = h r) \<and>
           save_reviews_then_analyze analyze finish_time top_products product_data_list reviews_list h =
             (case analyze_all_products (analyze h') finish_time top_products product_data_list reviews_list of
                Inl e \<Rightarrow> Inl e
              | Inr analyses \<Rightarrow> Inr (h', concat reviews_list, analyses))"
proof -
  from tag_reviews_from_present [of 0 reviews_list top_products h "[]"] assms
  obtain h' where
    h': "tag_reviews top_products reviews_list h = Inr (h', concat reviews_list)"
        "\<forall>k<length reviews_list. \<forall>r\<in>set (reviews_list ! k). h' r = tagged (top_products ! k) (h r)"
        "\<forall>r. r \<notin> set (concat reviews_list) \<longrightarrow> h' r = h r"
    by (auto simp: tag_reviews_def)
  have "h' r ''asin'' = Some (py_value (asin (top_products ! i))) \<and>
        h' r ''product_title'' = Some (py_value (title (top_products ! i))) \<and>
        (\<forall>k. k \<noteq> ''asin'' \<and> k \<noteq> ''product_title'' \<longrightarrow> h' r k = h r k)"
    if "i < length reviews_list" "r \<in> set (reviews_list ! i)" for i r
    using h'(2) that by (simp add: tagged_def)
  moreover have "save_reviews_then_analyze analyze finish_time top_products product_data_list reviews_list h =
             (case analyze_all_products (analyze h') finish_time top_products product_data_list reviews_list of
                Inl e \<Rightarrow> Inl e
              | Inr analyses \<Rightarrow> Inr (h', concat reviews_list, analyses))"
    by (simp add: save_reviews_then_analyze_def h'(1))
  ultimately show ?thesis using h'(1,3) by blast
qed

theorem reviews_tagged_in_place_witness:
  "\<exists>h'. tag_reviews
           [example_product ''B01'' (9 / 2) 200 ''$20.00'', example_product ''B02'' 4 150 ''$25.00'']
           [[0, 1], [2]] (\<lambda>r. Map.empty) = Inr (h', [0, 1, 2]) \<and>
         h' 2 ''asin'' = Some (PyStr ''B02'') \<and> h' 0 ''product_title'' = Some (PyStr ''Kettle'')"
proof -
  let ?ps = "[example_product ''B01'' (9 / 2) 200 ''$20.00'', example_product ''B02'' 4 150 ''$25.00'']"
  let ?rl = "[[0, 1], [2::nat]]"
  have 1: "length ?rl \<le> length ?ps" by simp
  have 2: "\<forall>p\<in>set ?ps. asin p \<noteq> Absent \<and> title p \<noteq> Absent"
    by (simp add: example_product_def)
  have 3: "distinct (concat ?rl)" by simp
  from reviews_tagged_in_place [OF 1 2 3, of "\<lambda>r. Map.empty" undefined undefined undefined]
  obtain h' where
    run: "tag_reviews ?ps ?rl (\<lambda>r. Map.empty) = Inr (h', concat ?rl)" and
    tags: "\<forall>i<length ?rl. \<forall>r\<in>set (?rl ! i).
              h' r ''asin'' = Some (py_value (asin (?ps ! i))) \<and>
              h' r ''product_title'' = Some (py_value (title (?ps ! i))) \<and>
              (\<forall>k. k \<noteq> ''asin'' \<and> k \<noteq> ''product_title'' \<longrightarrow> h' r k = (\<lambda>r. Map.empty) r k)"
    by (elim exE conjE)
  have "(1::nat) < length ?rl" "(2::nat) \<in> set (?rl ! 1)" by simp_all
  with tags have a: "h' 2 ''asin'' = Some (py_value (asin (?ps ! 1)))" by blast
  have "(0::nat) < length ?rl" "(0::nat) \<in> set (?rl ! 0)" by simp_all
  with tags have b: "h' 0 ''product_title'' = Some (py_value (title (?ps ! 0)))" by blast
  from run a b show ?thesis
    by (intro exI [of _ h']) (simp add: example_product_def py_value_def)
qed

section \<open>Claims about the Analysis Text Parser\<close>

text \<open>
  Claim C6: a response with three numbered strength lines, distinct and free of
  placeholder phrases, is meant to give three strengths, each the text of its line
  without the enumeration token. The code removes every leading digit, dot, dash,
  closing parenthesis and space, and so also the beginning of an item text that starts
  with such characters: the strength \<open>10\<close> is lost altogether, so that three strength
  lines give two strengths, and the strength \<open>5-year warranty\<close> comes out as
  \<open>year warranty\<close>.
\<close>

theorem item_text_stripped_with_token:
  "parse_analysis_text example_analysis
     = ([''Fast'', ''<strong>Quiet</strong> motor''], [''Heavy'', ''Loud'', ''Hot'']) \<and>
   parse_analysis_text warranty_analysis
     = ([''Fast'', ''<strong>Quiet</strong> motor'', ''year warranty''], [''Heavy'', ''Loud'', ''Hot''])"
  by code_simp

end
